theory Spec2Isabelle
  imports Main "HOL-Library.Char_ord" "HOL-Library.List_Lexorder"
begin

text \<open>
  A shallow embedding of the Go package \<open>github.com/stn81/httpclient\<close>: the request
  options (request_options.go), the error type (error.go), the request pipeline
  \<open>Client.do\<close> with the retry loop \<open>Client.Do\<close> and \<open>Client.DownloadFile\<close>, the retry
  classifier, and the JSON and XML wrappers (jsonclient.go, xmlclient.go).  State is
  passed explicitly: a function of the package takes the client and the world and returns
  them updated.  The collaborators of the package (net/http, compress/gzip, the codecs,
  zap, the operating system) are parameters or part of the world.
\<close>

section \<open>Data model\<close>

text \<open>
  Go strings and byte slices are byte sequences; both are \<open>string\<close> here (a list of
  8-bit characters).  An \<open>error\<close> interface value is \<open>error option\<close>, \<open>None\<close> being
  \<open>nil\<close>.  The only error type the package declares is \<open>*HTTPError\<close> (error.go); every
  error made by a collaborator (net/http, compress/gzip, the codecs, an option hook, the
  operating system) is an \<open>ExternalError\<close> carrying its message.
\<close>

datatype error = HTTPError int string | ExternalError string

text \<open>\<open>http.Header\<close>, \<open>url.Values\<close>: maps from a key to a list of values.\<close>

type_synonym Values = "(string \<times> string list) list"

record URL =
  Base :: string
  RawQuery :: string
  ForceQuery :: bool
  Fragment :: string

record Request =
  Method :: string
  Url :: URL
  Header :: Values
  Body :: string

type_synonym Ctx = "(string \<times> string) list"

text \<open>
  request_options.go, \<open>RequestOption\<close>: a hook receives the context and the request
  (a pointer in Go, so the hook may change it) and returns the new context and an error.
\<close>

type_synonym RequestOption = "Ctx \<Rightarrow> Request \<Rightarrow> Ctx \<times> error option \<times> Request"

section \<open>net/url: query strings\<close>

text \<open>
  The Go standard library (go.mod: go 1.18) is not part of the repository.  The query
  functions that \<open>SetQuery\<close> calls are written out after \<open>net/url\<close>: \<open>QueryUnescape\<close>,
  \<open>QueryEscape\<close>, \<open>ParseQuery\<close>, \<open>Values.Add\<close> and \<open>Values.Encode\<close>.
\<close>

definition ishex :: "char \<Rightarrow> bool" where
  "ishex c = (c \<in> set ''0123456789abcdefABCDEF'')"

definition unhex :: "char \<Rightarrow> nat" where
  "unhex c =
     (if CHR ''0'' \<le> c \<and> c \<le> CHR ''9'' then of_char c - of_char (CHR ''0'')
      else if CHR ''a'' \<le> c \<and> c \<le> CHR ''f'' then of_char c - of_char (CHR ''a'') + 10
      else if CHR ''A'' \<le> c \<and> c \<le> CHR ''F'' then of_char c - of_char (CHR ''A'') + 10
      else 0)"

fun QueryUnescape :: "string \<Rightarrow> error + string" where
  "QueryUnescape [] = Inr []"
| "QueryUnescape (c # cs) =
     (if c = CHR ''%'' then
        (case cs of
           h1 # h2 # rest \<Rightarrow>
             (if ishex h1 \<and> ishex h2 then
                (case QueryUnescape rest of
                   Inl e \<Rightarrow> Inl e
                 | Inr s \<Rightarrow> Inr (char_of (unhex h1 * 16 + unhex h2) # s))
              else Inl (ExternalError ''invalid URL escape''))
         | _ \<Rightarrow> Inl (ExternalError ''invalid URL escape''))
      else
        (case QueryUnescape cs of
           Inl e \<Rightarrow> Inl e
         | Inr s \<Rightarrow> Inr ((if c = CHR ''+'' then CHR '' '' else c) # s)))"

definition shouldEscape :: "char \<Rightarrow> bool" where
  "shouldEscape c =
     (\<not> ((CHR ''a'' \<le> c \<and> c \<le> CHR ''z'') \<or> (CHR ''A'' \<le> c \<and> c \<le> CHR ''Z'')
         \<or> (CHR ''0'' \<le> c \<and> c \<le> CHR ''9'') \<or> c \<in> set ''-_.~''))"

definition upperhex :: "nat \<Rightarrow> char" where
  "upperhex n = ''0123456789ABCDEF'' ! (n mod 16)"

fun QueryEscape :: "string \<Rightarrow> string" where
  "QueryEscape [] = []"
| "QueryEscape (c # cs) =
     (if c = CHR '' '' then CHR ''+'' # QueryEscape cs
      else if shouldEscape c then
        CHR ''%'' # upperhex (of_char c div 16) # upperhex (of_char c mod 16) # QueryEscape cs
      else c # QueryEscape cs)"

definition values_at :: "Values \<Rightarrow> string \<Rightarrow> string list" where
  "values_at q k = (case map_of q k of None \<Rightarrow> [] | Some vs \<Rightarrow> vs)"

text \<open>\<open>Values.Add\<close>: \<open>v[key] = append(v[key], value)\<close>.\<close>

fun values_Add :: "Values \<Rightarrow> string \<Rightarrow> string \<Rightarrow> Values" where
  "values_Add [] k v = [(k, [v])]"
| "values_Add ((k', vs) # q) k v =
     (if k' = k then (k', vs @ [v]) # q else (k', vs) # values_Add q k v)"

text \<open>\<open>strings.Cut\<close> at the first separator byte.\<close>

definition Cut :: "char \<Rightarrow> string \<Rightarrow> string \<times> string" where
  "Cut sep s = (takeWhile (\<lambda>c. c \<noteq> sep) s, drop 1 (dropWhile (\<lambda>c. c \<noteq> sep) s))"

text \<open>
  \<open>parseQuery\<close>: the loop \<open>for query != ""\<close>.  A pair with a semicolon, an empty pair
  and a pair whose key or value does not unescape are skipped; the first error is kept
  (its message is not modelled: \<open>URL.Query\<close> drops it).
\<close>

function parseQuery :: "Values \<times> error option \<Rightarrow> string \<Rightarrow> Values \<times> error option" where
  "parseQuery me query =
     (if query = [] then me
      else
        (let (key, rest) = Cut (CHR ''&'') query; (m, err) = me in
         if CHR '';'' \<in> set key then
           parseQuery (m, Some (ExternalError ''invalid semicolon separator in query'')) rest
         else if key = [] then parseQuery (m, err) rest
         else
           (let (k, v) = Cut (CHR ''='') key in
            case QueryUnescape k of
              Inl e1 \<Rightarrow> parseQuery (m, if err = None then Some e1 else err) rest
            | Inr k' \<Rightarrow>
               (case QueryUnescape v of
                  Inl e1 \<Rightarrow> parseQuery (m, if err = None then Some e1 else err) rest
                | Inr v' \<Rightarrow> parseQuery (values_Add m k' v', err) rest))))"
  by pat_completeness auto
termination
proof -
  have cut: "length (drop 1 (dropWhile (\<lambda>c. c \<noteq> sep) q)) < length q"
    if "q \<noteq> []" for sep :: char and q
  proof -
    have "length (dropWhile (\<lambda>c. c \<noteq> sep) q) \<le> length q"
      by (rule length_dropWhile_le)
    moreover from that have "0 < length q" by simp
    ultimately have "length (dropWhile (\<lambda>c. c \<noteq> sep) q) - 1 < length q" by arith
    then show ?thesis by simp
  qed
  show ?thesis
    by (relation "measure (\<lambda>(me, query). length query)") (use cut in \<open>auto simp: Cut_def\<close>)
qed

declare parseQuery.simps [simp del]

definition ParseQuery :: "string \<Rightarrow> Values \<times> error option" where
  "ParseQuery query = parseQuery ([], None) query"

text \<open>\<open>URL.Query\<close>: \<open>v, _ := ParseQuery(u.RawQuery)\<close>, the error dropped.\<close>

definition URL_Query :: "URL \<Rightarrow> Values" where
  "URL_Query u = fst (ParseQuery (RawQuery u))"

text \<open>
  \<open>Values.Encode\<close>: the keys sorted (\<open>sort.Strings\<close>, byte order), each value written as
  \<open>key=value\<close> with both parts escaped, an \<open>&\<close> before every pair but the first.
\<close>

definition Encode :: "Values \<Rightarrow> string" where
  "Encode q =
     foldl (\<lambda>buf p. (if buf \<noteq> [] then buf @ ''&'' else buf) @ p) []
       (concat (map (\<lambda>k. map (\<lambda>v. QueryEscape k @ ''='' @ QueryEscape v) (values_at q k))
          (sort (map fst q))))"

text \<open>\<open>URL.String\<close>, the parts before the query taken as written.\<close>

definition URL_String :: "URL \<Rightarrow> string" where
  "URL_String u =
     Base u @ (if ForceQuery u \<or> RawQuery u \<noteq> [] then ''?'' @ RawQuery u else [])
       @ (if Fragment u \<noteq> [] then ''#'' @ Fragment u else [])"

section \<open>Request options (request\_options.go)\<close>

text \<open>
  \<open>Header.Get\<close> and \<open>Header.Set\<close> look the key up in canonical form; the canonical form
  of a key (\<open>textproto.CanonicalMIMEHeaderKey\<close>) is the parameter \<open>canon\<close>.
\<close>

definition Header_Get :: "(string \<Rightarrow> string) \<Rightarrow> Values \<Rightarrow> string \<Rightarrow> string" where
  "Header_Get canon h key = (case values_at h (canon key) of [] \<Rightarrow> [] | v # _ \<Rightarrow> v)"

fun Header_Set_key :: "Values \<Rightarrow> string \<Rightarrow> string \<Rightarrow> Values" where
  "Header_Set_key [] k v = [(k, [v])]"
| "Header_Set_key ((k', vs) # h) k v =
     (if k' = k then (k', [v]) # h else (k', vs) # Header_Set_key h k v)"

definition Header_Set :: "(string \<Rightarrow> string) \<Rightarrow> Values \<Rightarrow> string \<Rightarrow> string \<Rightarrow> Values" where
  "Header_Set canon h key v = Header_Set_key h (canon key) v"

definition SetHeader :: "(string \<Rightarrow> string) \<Rightarrow> string \<Rightarrow> string \<Rightarrow> RequestOption" where
  "SetHeader canon key v = (\<lambda>ctx req. (ctx, None, req\<lparr>Header := Header_Set canon (Header req) key v\<rparr>))"

definition SetTypeXML :: "(string \<Rightarrow> string) \<Rightarrow> RequestOption" where
  "SetTypeXML canon = SetHeader canon ''Content-Type'' ''application/xml; charset=UTF-8''"

definition SetTypeJSON :: "(string \<Rightarrow> string) \<Rightarrow> RequestOption" where
  "SetTypeJSON canon = SetHeader canon ''Content-Type'' ''application/json; charset=UTF-8''"

definition SetTypeForm :: "(string \<Rightarrow> string) \<Rightarrow> RequestOption" where
  "SetTypeForm canon = SetHeader canon ''Content-Type'' ''application/x-www-form-urlencoded''"

text \<open>
  \<open>SetQuery\<close>: the two nested loops over \<open>values\<close>.  Go ranges over the map's keys in an
  order it does not fix; the list \<open>values\<close> gives the keys in the order of one run.
\<close>

definition add_values :: "Values \<Rightarrow> Values \<Rightarrow> Values" where
  "add_values q vals = fold (\<lambda>(k, v) q. fold (\<lambda>vv q. values_Add q k vv) v q) vals q"

definition SetQuery :: "Values \<Rightarrow> RequestOption" where
  "SetQuery vals = (\<lambda>ctx req.
     (let q = add_values (URL_Query (Url req)) vals
      in (ctx, None, req\<lparr>Url := (Url req)\<lparr>RawQuery := Encode q\<rparr>\<rparr>)))"

section \<open>Retry classifier\<close>

text \<open>\<open>retrier.Action\<close>, and \<open>RetryClassifier.Classify\<close>.\<close>

datatype Action = Succeed | Fail | Retry

definition Classify :: "error option \<Rightarrow> Action" where
  "Classify err = (if err = None then Succeed else Retry)"

section \<open>Slices and their backing arrays\<close>

text \<open>
  \<open>client.reqOpts\<close> is a Go slice: a window (\<open>off\<close>, \<open>len\<close>, \<open>cap\<close>) on a backing
  array.  The arrays live in a store, addressed by their position; the \<open>nil\<close> slice has
  length and capacity 0.  \<open>append\<close> writes behind the window when the capacity
  suffices and allocates a new array otherwise (the runtime may round the new capacity
  up; the pipeline drops the new slice when it returns, so the spare room is never used).
\<close>

record slice =
  base :: nat
  off :: nat
  len :: nat
  cap :: nat

type_synonym heap = "RequestOption list list"

definition nil_slice :: slice where
  "nil_slice = \<lparr>base = 0, off = 0, len = 0, cap = 0\<rparr>"

definition array_at :: "heap \<Rightarrow> nat \<Rightarrow> RequestOption list" where
  "array_at h a = (if a < length h then h ! a else [])"

definition slice_elems :: "heap \<Rightarrow> slice \<Rightarrow> RequestOption list" where
  "slice_elems h s = take (len s) (drop (off s) (array_at h (base s)))"

definition go_append :: "heap \<Rightarrow> slice \<Rightarrow> RequestOption list \<Rightarrow> slice \<times> heap" where
  "go_append h s xs =
     (if len s + length xs \<le> cap s then
        (s\<lparr>len := len s + length xs\<rparr>,
         h[base s := take (off s + len s) (array_at h (base s)) @ xs
                      @ drop (off s + len s + length xs) (array_at h (base s))])
      else
        (\<lparr>base = length h, off = 0, len = len s + length xs, cap = len s + length xs\<rparr>,
         h @ [slice_elems h s @ xs]))"

text \<open>The full slice expression \<open>s[:hi:mx]\<close>.\<close>

definition slice_full :: "slice \<Rightarrow> nat \<Rightarrow> nat \<Rightarrow> slice" where
  "slice_full s hi mx = s\<lparr>len := hi, cap := mx\<rparr>"

text \<open>A slice the runtime can hold: its window lies inside an allocated array.\<close>

definition slice_ok :: "heap \<Rightarrow> slice \<Rightarrow> bool" where
  "slice_ok h s =
     (len s \<le> cap s \<and> (cap s = 0 \<or> (base s < length h \<and> off s + cap s \<le> length (h ! base s))))"

section \<open>Client, collaborators and the world\<close>

text \<open>
  \<open>retrier.Retrier\<close> (github.com/eapache/go-resiliency): the backoff schedule
  (durations in nanoseconds) and the classifier.
\<close>

record Retrier =
  backoff :: "int list"
  "class" :: "error option \<Rightarrow> Action"

text \<open>
  \<open>Client\<close> (the fields the pipeline reads or writes; the transport, the cookie jar
  and the logger are collaborators and belong to the world).
\<close>

record Client =
  Timeout :: int
  retrier :: "Retrier option"
  reqOpts :: slice
  debugTraffic :: bool

text \<open>
  A response body is a stream: the bytes it delivers and the error that ends it
  (\<open>None\<close> for a clean end of file).
\<close>

type_synonym stream = "string \<times> error option"

record Response =
  StatusCode :: int
  Status :: string
  RespHeader :: Values
  RespBody :: stream

text \<open>
  The collaborators that are functions of their arguments: \<open>net/http\<close>'s method check,
  \<open>url.Parse\<close>, \<open>textproto.CanonicalMIMEHeaderKey\<close>, \<open>gzip.NewReader\<close> (the
  decompressed stream, or the error of a bad header), \<open>Response.Cookies\<close> (name and
  value of every cookie set) and \<open>os.Create\<close> (whether creating the path fails).
\<close>

record Env =
  validMethod :: "string \<Rightarrow> bool"
  url_Parse :: "string \<Rightarrow> error + URL"
  canon :: "string \<Rightarrow> string"
  gzip_NewReader :: "stream \<Rightarrow> error + stream"
  readSetCookies :: "Values \<Rightarrow> (string \<times> string) list"
  os_Create :: "string \<Rightarrow> error option"

text \<open>
  Diagnostic records (zap).  \<open>proc_time\<close> is elapsed wall-clock time: the field is
  recorded, its value is not modelled.
\<close>

datatype Level = DebugLevel | ErrorLevel

datatype Field =
  ZapString string string | ZapError error | ZapInt64 string int | ZapDuration string

record LogEntry =
  level :: Level
  msg :: string
  flds :: "Field list"

text \<open>
  The calls a run makes, in order: an invocation of \<open>do\<close> (one physical attempt), the
  call of the k-th option hook, a transport dispatch, \<open>gzip.NewReader\<close> and
  \<open>ioutil.ReadAll\<close> on the response body, a log call, a backoff sleep, \<open>os.Create\<close>
  and \<open>io.Copy\<close>.
\<close>

datatype event =
  EvAttempt | EvOption nat | EvDispatch Request | EvNewGzipReader | EvReadAll
| EvLog LogEntry | EvSleep int | EvCreate string | EvCopy string

text \<open>
  The world: the store of option arrays, the transport (its answer to the k-th dispatch
  of a request: an error or a response), the number of dispatches so far, the files
  written, and the trace of calls.
\<close>

record World =
  heap :: heap
  transport :: "nat \<Rightarrow> Request \<Rightarrow> error + Response"
  dispatched :: nat
  files :: "string \<Rightarrow> string option"
  trace :: "event list"

definition emit :: "event \<Rightarrow> World \<Rightarrow> World" where
  "emit e w = w\<lparr>trace := trace w @ [e]\<rparr>"

definition DefaultTimeout :: int where
  "DefaultTimeout = 15 * 1000000000"

text \<open>\<open>SetDefaultReqOpts\<close>: \<open>client.reqOpts = reqOpts[:len(reqOpts):len(reqOpts)]\<close>.\<close>

definition SetDefaultReqOpts :: "Client \<Rightarrow> slice \<Rightarrow> Client" where
  "SetDefaultReqOpts cl s = cl\<lparr>reqOpts := slice_full s (len s) (len s)\<rparr>"

text \<open>
  Modelled from the spec: \<open>retrier.New\<close> of github.com/eapache/go-resiliency, which is
  not under src/.  Spec 3: the retry policy is a classifier and a backoff schedule.
\<close>

definition retrier_New :: "int list \<Rightarrow> (error option \<Rightarrow> Action) \<Rightarrow> Retrier" where
  "retrier_New bs c = \<lparr>backoff = bs, class = c\<rparr>"

text \<open>\<open>SetRetry\<close>: \<open>retrier.New(backoff, DefaultRetryClassifier)\<close>.\<close>

definition SetRetry :: "Client \<Rightarrow> int list \<Rightarrow> Client" where
  "SetRetry cl bs = cl\<lparr>retrier := Some (retrier_New bs Classify)\<rparr>"

definition SetRetrier :: "Client \<Rightarrow> Retrier option \<Rightarrow> Client" where
  "SetRetrier cl r = cl\<lparr>retrier := r\<rparr>"

section \<open>The request pipeline: \<open>Client.do\<close>\<close>

text \<open>
  \<open>http.NewRequest\<close>: an empty method is GET; an invalid method or a URL that does not
  parse is an error; the new request has an empty header.
\<close>

definition NewRequest :: "Env \<Rightarrow> string \<Rightarrow> string \<Rightarrow> string \<Rightarrow> error + Request" where
  "NewRequest env method url body =
     (let m = (if method = [] then ''GET'' else method) in
      if \<not> validMethod env m then Inl (ExternalError ''net/http: invalid method'')
      else
        (case url_Parse env url of
           Inl e \<Rightarrow> Inl e
         | Inr u \<Rightarrow> Inr \<lparr>Method = m, Url = u, Header = [], Body = body\<rparr>))"

text \<open>
  The loop \<open>for _, reqOpt := range reqOpts\<close>: the k-th hook gets the context the hook
  before it returned; an error ends the loop at once.
\<close>

fun option_loop ::
  "RequestOption list \<Rightarrow> nat \<Rightarrow> Ctx \<Rightarrow> Request \<Rightarrow> World \<Rightarrow> error option \<times> Ctx \<times> Request \<times> World"
where
  "option_loop [] k ctx req w = (None, ctx, req, w)"
| "option_loop (reqOpt # rest) k ctx req w =
     (case reqOpt ctx req of
        (ctx', err, req') \<Rightarrow>
          (case err of
             Some e \<Rightarrow> (Some e, ctx', req', emit (EvOption k) w)
           | None \<Rightarrow> option_loop rest (Suc k) ctx' req' (emit (EvOption k) w)))"

text \<open>\<open>logger.Error(msg, zap.Error(err), zap.Duration("proc_time", ...))\<close>.\<close>

definition log_error :: "Field list \<Rightarrow> string \<Rightarrow> error \<Rightarrow> World \<Rightarrow> World" where
  "log_error fs m e w =
     emit (EvLog \<lparr>level = ErrorLevel, msg = m, flds = fs @ [ZapError e, ZapDuration ''proc_time'']\<rparr>) w"

definition log_debug :: "Field list \<Rightarrow> string \<Rightarrow> Field list \<Rightarrow> World \<Rightarrow> World" where
  "log_debug fs m extra w = emit (EvLog \<lparr>level = DebugLevel, msg = m, flds = fs @ extra\<rparr>) w"

text \<open>\<open>client.Client.Do(req)\<close>.\<close>

definition dispatch :: "Request \<Rightarrow> World \<Rightarrow> (error + Response) \<times> World" where
  "dispatch req w =
     (transport w (dispatched w) req, emit (EvDispatch req) (w\<lparr>dispatched := Suc (dispatched w)\<rparr>))"

definition ReadAll :: "stream \<Rightarrow> error + string" where
  "ReadAll s = (case snd s of None \<Rightarrow> Inr (fst s) | Some e \<Rightarrow> Inl e)"

text \<open>The cookie summary: \<open>name=value|\<close> for every cookie, the last \<open>|\<close> cut off.\<close>

definition cookie_summary :: "(string \<times> string) list \<Rightarrow> string" where
  "cookie_summary cs =
     (let buf = concat (map (\<lambda>(n, v). n @ ''='' @ v @ ''|'') cs)
      in if length buf > 0 then take (length buf - 1) buf else buf)"

text \<open>Lines 248 to 278: read the body, summarise the cookies, log the success.\<close>

definition read_response ::
  "Env \<Rightarrow> Client \<Rightarrow> Field list \<Rightarrow> Response \<Rightarrow> stream \<Rightarrow> World \<Rightarrow> (string \<times> error option) \<times> World"
where
  "read_response env cl fs resp reader w =
     (case ReadAll reader of
        Inl e \<Rightarrow> (([], Some e), log_error fs ''read response body'' e (emit EvReadAll w))
      | Inr respData \<Rightarrow>
          (let result = respData;
               cookies = cookie_summary (readSetCookies env (RespHeader resp))
           in ((result, None),
               log_debug fs ''request success''
                 ((if debugTraffic cl then [ZapString ''result'' result] else [])
                    @ [ZapString ''set_cookies'' cookies, ZapDuration ''proc_time''])
                 (emit EvReadAll w))))"

text \<open>
  Lines 229 to 246: the status check and the switch on \<open>Content-Encoding\<close>.  The
  deferred \<open>Close\<close> calls change nothing the model observes and are left out.
\<close>

definition handle_response ::
  "Env \<Rightarrow> Client \<Rightarrow> Field list \<Rightarrow> Response \<Rightarrow> World \<Rightarrow> (string \<times> error option) \<times> World"
where
  "handle_response env cl fs resp w =
     (if StatusCode resp < 200 \<or> StatusCode resp \<ge> 300 then
        (let e = HTTPError (StatusCode resp) (Status resp)
         in (([], Some e), log_error fs ''bad http status code'' e w))
      else if Header_Get (canon env) (RespHeader resp) ''Content-Encoding'' = ''gzip'' then
        (case gzip_NewReader env (RespBody resp) of
           Inl e \<Rightarrow> (([], Some e), log_error fs ''create gzip reader'' e (emit EvNewGzipReader w))
         | Inr reader \<Rightarrow> read_response env cl fs resp reader (emit EvNewGzipReader w))
      else read_response env cl fs resp (RespBody resp) w)"

text \<open>Lines 208 to 227: the lazy timeout default, the logger, the dispatch.\<close>

definition default_timeout :: "Client \<Rightarrow> Client" where
  "default_timeout cl = (if Timeout cl = 0 then cl\<lparr>Timeout := DefaultTimeout\<rparr> else cl)"

definition do_logger :: "Client \<Rightarrow> string \<Rightarrow> Request \<Rightarrow> string \<Rightarrow> Field list" where
  "do_logger cl method req body =
     [ZapString ''method'' method, ZapString ''url'' (URL_String (Url req))]
       @ (if debugTraffic cl then [ZapString ''body'' body] else [])"

definition do_send ::
  "Env \<Rightarrow> Client \<Rightarrow> string \<Rightarrow> string \<Rightarrow> Request \<Rightarrow> World \<Rightarrow> (string \<times> error option) \<times> Client \<times> World"
where
  "do_send env cl method body req w =
     (let cl' = default_timeout cl;
          fs = do_logger cl' method req body
      in case dispatch req w of
           (Inl e, w') \<Rightarrow> (([], Some e), cl', log_error fs ''do http request'' e w')
         | (Inr resp, w') \<Rightarrow>
             (case handle_response env cl' fs resp w' of (r, w'') \<Rightarrow> (r, cl', w'')))"

text \<open>
  Lines 196 to 206 of \<open>do\<close> (and 131 to 141 of \<open>DownloadFile\<close>): the request is built,
  the per-call options are appended to the defaults, the hooks run.  The per-call options
  are read only, so they are passed as the list of their values;
  \<open>append(client.reqOpts, reqOpts...)\<close> acts on the store.  The result is the error and
  the world at the early return, or the context, the request and the world before the
  dispatch.
\<close>

definition prepare ::
  "Env \<Rightarrow> Client \<Rightarrow> Ctx \<Rightarrow> string \<Rightarrow> string \<Rightarrow> string \<Rightarrow> RequestOption list \<Rightarrow> World
     \<Rightarrow> (error \<times> World) + (Ctx \<times> Request \<times> World)"
where
  "prepare env cl ctx method url body opts w =
     (case NewRequest env method url body of
        Inl e \<Rightarrow> Inl (e, w)
      | Inr req \<Rightarrow>
          (case go_append (heap w) (reqOpts cl) opts of
             (s, h) \<Rightarrow>
               (case option_loop (slice_elems h s) 0 ctx req (w\<lparr>heap := h\<rparr>) of
                  (Some e, ctx', req', w1) \<Rightarrow> Inl (e, w1)
                | (None, ctx', req', w1) \<Rightarrow> Inr (ctx', req', w1))))"

text \<open>\<open>Client.do\<close>: one physical attempt.\<close>

definition Client_do ::
  "Env \<Rightarrow> Client \<Rightarrow> Ctx \<Rightarrow> string \<Rightarrow> string \<Rightarrow> string \<Rightarrow> RequestOption list \<Rightarrow> World
     \<Rightarrow> (string \<times> error option) \<times> Client \<times> World"
where
  "Client_do env cl ctx method url body opts w =
     (case prepare env cl ctx method url body opts (emit EvAttempt w) of
        Inl (e, w1) \<Rightarrow> (([], Some e), cl, w1)
      | Inr (ctx', req, w1) \<Rightarrow> do_send env cl method body req w1)"

section \<open>The retry loop: \<open>Client.Do\<close>\<close>

text \<open>
  Modelled from the spec: \<open>Retrier.Run\<close> of github.com/eapache/go-resiliency, which
  \<open>Client.Do\<close> calls and which is not under src/.  Spec 4.2: "Repeatedly invoke the
  pipeline, feeding its outcome to the Retry Classifier.  Classifier returns Succeed:
  stop, return the pipeline's result.  Classifier returns Retry: wait for the next entry
  in the Backoff Schedule (consuming one entry per retry), then invoke the pipeline
  again.  Backoff Schedule exhausted: stop, return the last error."  The third action
  of the classifier (a fatal failure) stops the loop with the error as well.  The list
  is what is left of the schedule; \<open>sleep\<close> is the wait.
\<close>

fun Run ::
  "(error option \<Rightarrow> Action) \<Rightarrow> int list \<Rightarrow> (int \<Rightarrow> 's \<Rightarrow> 's) \<Rightarrow> ('s \<Rightarrow> error option \<times> 's) \<Rightarrow> 's
     \<Rightarrow> error option \<times> 's"
where
  "Run classify [] sleep work s =
     (case work s of
        (ret, s') \<Rightarrow>
          (case classify ret of Succeed \<Rightarrow> (ret, s') | Fail \<Rightarrow> (ret, s') | Retry \<Rightarrow> (ret, s')))"
| "Run classify (b # bs) sleep work s =
     (case work s of
        (ret, s') \<Rightarrow>
          (case classify ret of
             Succeed \<Rightarrow> (ret, s')
           | Fail \<Rightarrow> (ret, s')
           | Retry \<Rightarrow> Run classify bs sleep work (sleep b s')))"

text \<open>
  The closure \<open>Client.Do\<close> hands to \<open>Run\<close>: it assigns the captured \<open>result\<close> and returns
  the error of \<open>do\<close>.  Its state is the captured \<open>result\<close>, the client and the world.
\<close>

definition do_closure ::
  "Env \<Rightarrow> Ctx \<Rightarrow> string \<Rightarrow> string \<Rightarrow> string \<Rightarrow> RequestOption list
     \<Rightarrow> string \<times> Client \<times> World \<Rightarrow> error option \<times> string \<times> Client \<times> World"
where
  "do_closure env ctx method url body opts =
     (\<lambda>(result, cl, w).
        case Client_do env cl ctx method url body opts w of
          ((result', err), cl', w') \<Rightarrow> (err, result', cl', w'))"

definition backoff_sleep :: "int \<Rightarrow> string \<times> Client \<times> World \<Rightarrow> string \<times> Client \<times> World" where
  "backoff_sleep d = (\<lambda>(result, cl, w). (result, cl, emit (EvSleep d) w))"

definition Client_Do ::
  "Env \<Rightarrow> Client \<Rightarrow> Ctx \<Rightarrow> string \<Rightarrow> string \<Rightarrow> string \<Rightarrow> RequestOption list \<Rightarrow> World
     \<Rightarrow> (string \<times> error option) \<times> Client \<times> World"
where
  "Client_Do env cl ctx method url body opts w =
     (case retrier cl of
        None \<Rightarrow> Client_do env cl ctx method url body opts w
      | Some r \<Rightarrow>
          (case Run (class r) (backoff r) backoff_sleep
                  (do_closure env ctx method url body opts) ([], cl, w) of
             (err, result, cl', w') \<Rightarrow> ((result, err), cl', w')))"

section \<open>\<open>Client.DownloadFile\<close>\<close>

text \<open>
  Lines 143 to 184.  \<open>io.Copy\<close> writes the bytes the body delivers to the file and fails
  with the error that ends the stream; a failing write to the disk is not modelled.
\<close>

definition download_logger :: "string \<Rightarrow> Request \<Rightarrow> string \<Rightarrow> Field list" where
  "download_logger method req outFile =
     [ZapString ''method'' method, ZapString ''url'' (URL_String (Url req)),
      ZapString ''out_file'' outFile]"

definition download_send ::
  "Env \<Rightarrow> Client \<Rightarrow> string \<Rightarrow> string \<Rightarrow> Request \<Rightarrow> World \<Rightarrow> error option \<times> Client \<times> World"
where
  "download_send env cl method outFile req w =
     (let cl' = default_timeout cl;
          fs = download_logger method req outFile
      in case dispatch req w of
           (Inl e, w') \<Rightarrow> (Some e, cl', log_error fs ''do http request'' e w')
         | (Inr resp, w') \<Rightarrow>
             (if StatusCode resp < 200 \<or> StatusCode resp \<ge> 300 then
                (let e = HTTPError (StatusCode resp) (Status resp)
                 in (Some e, cl', log_error fs ''bad http status code'' e w'))
              else
                (case os_Create env outFile of
                   Some e \<Rightarrow>
                     (Some e, cl', log_error fs ''create download file'' e (emit (EvCreate outFile) w'))
                 | None \<Rightarrow>
                     (let w1 = emit (EvCopy outFile)
                                 ((emit (EvCreate outFile) w')
                                    \<lparr>files := (files w')(outFile \<mapsto> fst (RespBody resp))\<rparr>)
                      in case snd (RespBody resp) of
                           Some e \<Rightarrow>
                             (Some e, cl',
                              log_error fs ''copy response data to download file'' e w1)
                         | None \<Rightarrow>
                             (None, cl',
                              log_debug fs ''request success''
                                [ZapInt64 ''file_size'' (int (length (fst (RespBody resp)))),
                                 ZapDuration ''proc_time''] w1)))))"

definition DownloadFile ::
  "Env \<Rightarrow> Client \<Rightarrow> Ctx \<Rightarrow> string \<Rightarrow> string \<Rightarrow> RequestOption list \<Rightarrow> World
     \<Rightarrow> error option \<times> Client \<times> World"
where
  "DownloadFile env cl ctx url outFile opts w =
     (case prepare env cl ctx ''GET'' url [] opts w of
        Inl (e, w1) \<Rightarrow> (Some e, cl, w1)
      | Inr (ctx', req, w1) \<Rightarrow> download_send env cl ''GET'' outFile req w1)"

section \<open>Content wrappers (jsonclient.go, xmlclient.go)\<close>

text \<open>
  The request body is an \<open>interface{}\<close>: \<open>nil\<close>, a \<open>string\<close>, a \<open>json.RawMessage\<close>, a
  \<open>[]byte\<close>, or a value of another type.  The codec (\<open>encoding/json\<close>, \<open>encoding/xml\<close>)
  is a collaborator: \<open>Marshal\<close> takes any body, \<open>Unmarshal\<close> takes the text and the
  destination's content and returns an error and the content it leaves there.  The result
  destination is \<open>None\<close> for \<open>nil\<close> and \<open>Some d\<close> for a pointer to a value \<open>d\<close>.
\<close>

datatype 'v body =
  BodyNil | BodyString string | BodyRawMessage string | BodyBytes string | BodyValue 'v

record ('v, 'd) Codec =
  Marshal :: "'v body \<Rightarrow> error + string"
  Unmarshal :: "string \<Rightarrow> 'd \<Rightarrow> error option \<times> 'd"

definition wrapper_log :: "string \<Rightarrow> error \<Rightarrow> World \<Rightarrow> World" where
  "wrapper_log m e w = emit (EvLog \<lparr>level = ErrorLevel, msg = m, flds = [ZapError e]\<rparr>) w"

text \<open>jsonclient.go, lines 64 to 78.\<close>

definition json_body :: "('v, 'd) Codec \<Rightarrow> 'v body \<Rightarrow> error + string" where
  "json_body codec b =
     (case b of
        BodyNil \<Rightarrow> Inr []
      | BodyString s \<Rightarrow> Inr s
      | BodyRawMessage s \<Rightarrow> Inr s
      | BodyBytes s \<Rightarrow> Inr s
      | BodyValue v \<Rightarrow> Marshal codec b)"

text \<open>xmlclient.go, lines 64 to 76.\<close>

definition xml_body :: "('v, 'd) Codec \<Rightarrow> 'v body \<Rightarrow> error + string" where
  "xml_body codec b =
     (case b of
        BodyNil \<Rightarrow> Inr []
      | BodyString s \<Rightarrow> Inr s
      | BodyBytes s \<Rightarrow> Inr s
      | _ \<Rightarrow> Marshal codec b)"

text \<open>The end of both wrappers: \<open>if result != nil && resultStr != ""\<close>.\<close>

definition unmarshal_result ::
  "('v, 'd) Codec \<Rightarrow> 'd option \<Rightarrow> string \<Rightarrow> World \<Rightarrow> error option \<times> 'd option \<times> World"
where
  "unmarshal_result codec result resultStr w =
     (case result of
        None \<Rightarrow> (None, None, w)
      | Some d \<Rightarrow>
          (if resultStr \<noteq> [] then
             (case Unmarshal codec resultStr d of
                (Some e, d') \<Rightarrow> (Some e, Some d', wrapper_log ''unmarshal response body'' e w)
              | (None, d') \<Rightarrow> (None, Some d', w))
           else (None, Some d, w)))"

text \<open>jsonclient.go, lines 82 to 92; xmlclient.go, lines 80 to 90.\<close>

definition wrapper_finish ::
  "('v, 'd) Codec \<Rightarrow> 'd option \<Rightarrow> (string \<times> error option) \<times> Client \<times> World
     \<Rightarrow> error option \<times> 'd option \<times> Client \<times> World"
where
  "wrapper_finish codec result r =
     (case r of
        ((resultStr, Some e), cl', w') \<Rightarrow> (Some e, result, cl', w')
      | ((resultStr, None), cl', w') \<Rightarrow>
          (case unmarshal_result codec result resultStr w' of
             (err, result', w'') \<Rightarrow> (err, result', cl', w'')))"

definition JSONClient_Do ::
  "Env \<Rightarrow> ('v, 'd) Codec \<Rightarrow> Client \<Rightarrow> Ctx \<Rightarrow> string \<Rightarrow> string \<Rightarrow> 'v body \<Rightarrow> 'd option
     \<Rightarrow> RequestOption list \<Rightarrow> World \<Rightarrow> error option \<times> 'd option \<times> Client \<times> World"
where
  "JSONClient_Do env codec cl ctx method url b result opts w =
     (case json_body codec b of
        Inl e \<Rightarrow> (Some e, result, cl, wrapper_log ''marshal request body'' e w)
      | Inr bodyData \<Rightarrow>
          wrapper_finish codec result
            (Client_Do env cl ctx method url bodyData (SetTypeJSON (canon env) # opts) w))"

definition XMLClient_Do ::
  "Env \<Rightarrow> ('v, 'd) Codec \<Rightarrow> Client \<Rightarrow> Ctx \<Rightarrow> string \<Rightarrow> string \<Rightarrow> 'v body \<Rightarrow> 'd option
     \<Rightarrow> RequestOption list \<Rightarrow> World \<Rightarrow> error option \<times> 'd option \<times> Client \<times> World"
where
  "XMLClient_Do env codec cl ctx method url b result opts w =
     (case xml_body codec b of
        Inl e \<Rightarrow> (Some e, result, cl, wrapper_log ''marshal request body'' e w)
      | Inr bodyData \<Rightarrow>
          wrapper_finish codec result
            (Client_Do env cl ctx method url bodyData (SetTypeXML (canon env) # opts) w))"

section \<open>Sequences of calls\<close>

text \<open>A caller issuing requests one after the other on the same client.\<close>

datatype call =
  CallDo Ctx string string string "RequestOption list"
| CallDownloadFile Ctx string string "RequestOption list"

fun run_calls :: "Env \<Rightarrow> call list \<Rightarrow> Client \<times> World \<Rightarrow> Client \<times> World" where
  "run_calls env [] cw = cw"
| "run_calls env (CallDo ctx method url body opts # cs) (cl, w) =
     run_calls env cs (snd (Client_Do env cl ctx method url body opts w))"
| "run_calls env (CallDownloadFile ctx url outFile opts # cs) (cl, w) =
     run_calls env cs (snd (DownloadFile env cl ctx url outFile opts w))"

section \<open>Observations on a run\<close>

text \<open>The diagnostic records, the attempts and the dispatches in a trace.\<close>

fun is_log :: "event \<Rightarrow> bool" where
  "is_log (EvLog e) = True"
| "is_log _ = False"

fun is_attempt :: "event \<Rightarrow> bool" where
  "is_attempt EvAttempt = True"
| "is_attempt _ = False"

fun is_dispatch :: "event \<Rightarrow> bool" where
  "is_dispatch (EvDispatch req) = True"
| "is_dispatch _ = False"

fun is_body_read :: "event \<Rightarrow> bool" where
  "is_body_read EvNewGzipReader = True"
| "is_body_read EvReadAll = True"
| "is_body_read _ = False"

definition count_logs :: "event list \<Rightarrow> nat" where
  "count_logs tr = length (filter is_log tr)"

definition count_attempts :: "event list \<Rightarrow> nat" where
  "count_attempts tr = length (filter is_attempt tr)"

text \<open>
  The text of a response body, as lines 235 to 251 of \<open>do\<close> read it: through the
  decompressor when \<open>Content-Encoding\<close> is \<open>gzip\<close>, as it comes otherwise.
\<close>

definition body_text :: "Env \<Rightarrow> Response \<Rightarrow> error + string" where
  "body_text env resp =
     (if Header_Get (canon env) (RespHeader resp) ''Content-Encoding'' = ''gzip'' then
        (case gzip_NewReader env (RespBody resp) of Inl e \<Rightarrow> Inl e | Inr reader \<Rightarrow> ReadAll reader)
      else ReadAll (RespBody resp))"

text \<open>
  Along a retry schedule: every physical attempt fails; and the state in which the
  last attempt starts.
\<close>

fun every_attempt_fails ::
  "(int \<Rightarrow> 's \<Rightarrow> 's) \<Rightarrow> ('s \<Rightarrow> error option \<times> 's) \<Rightarrow> int list \<Rightarrow> 's \<Rightarrow> bool"
where
  "every_attempt_fails sleep work [] s = (fst (work s) \<noteq> None)"
| "every_attempt_fails sleep work (b # bs) s =
     (fst (work s) \<noteq> None \<and> every_attempt_fails sleep work bs (sleep b (snd (work s))))"

fun last_attempt_state ::
  "(int \<Rightarrow> 's \<Rightarrow> 's) \<Rightarrow> ('s \<Rightarrow> error option \<times> 's) \<Rightarrow> int list \<Rightarrow> 's \<Rightarrow> 's"
where
  "last_attempt_state sleep work [] s = s"
| "last_attempt_state sleep work (b # bs) s =
     last_attempt_state sleep work bs (sleep b (snd (work s)))"

section \<open>Example inputs\<close>

text \<open>
  Stand-ins for the collaborators, used to run the pipeline on concrete inputs: a URL
  parser that rejects control characters and splits at the first \<open>?\<close>; a method check
  that rejects the empty method and a space; a decompressor that checks the two magic
  bytes of a gzip header and takes the rest of the stream as the decompressed bytes.
\<close>

definition test_Parse :: "string \<Rightarrow> error + URL" where
  "test_Parse s =
     (if list_ex (\<lambda>c. c < CHR '' '' \<or> c = CHR 0x7F) s
      then Inl (ExternalError ''net/url: invalid control character in URL'')
      else Inr \<lparr>Base = takeWhile (\<lambda>c. c \<noteq> CHR ''?'') s,
                RawQuery = drop 1 (dropWhile (\<lambda>c. c \<noteq> CHR ''?'') s),
                ForceQuery = False, Fragment = []\<rparr>)"

definition test_gunzip :: "stream \<Rightarrow> error + stream" where
  "test_gunzip s =
     (if take 2 (fst s) = [CHR 0x1F, CHR 0x8B] then Inr (drop 2 (fst s), snd s)
      else Inl (ExternalError ''gzip: invalid header''))"

definition test_env :: Env where
  "test_env =
     \<lparr>validMethod = (\<lambda>m. m \<noteq> [] \<and> CHR '' '' \<notin> set m),
      url_Parse = test_Parse,
      canon = (\<lambda>k. k),
      gzip_NewReader = test_gunzip,
      readSetCookies = (\<lambda>h. []),
      os_Create = (\<lambda>p. None)\<rparr>"

definition test_client :: Client where
  "test_client = \<lparr>Timeout = 0, retrier = None, reqOpts = nil_slice, debugTraffic = True\<rparr>"

text \<open>A world whose transport answers every dispatch with the same response.\<close>

definition test_world :: "(error + Response) \<Rightarrow> World" where
  "test_world r =
     \<lparr>heap = [], transport = (\<lambda>k req. r), dispatched = 0, files = (\<lambda>p. None), trace = []\<rparr>"

definition test_request :: Request where
  "test_request =
     \<lparr>Method = ''GET'',
      Url = \<lparr>Base = ''http://h/path'', RawQuery = ''x=0'', ForceQuery = False, Fragment = []\<rparr>,
      Header = [], Body = []\<rparr>"

text \<open>An option hook that rejects the request.\<close>

definition failing_option :: RequestOption where
  "failing_option = (\<lambda>ctx req. (ctx, Some (ExternalError ''rejected''), req))"

definition test_response :: "int \<Rightarrow> string \<Rightarrow> Values \<Rightarrow> string \<Rightarrow> Response" where
  "test_response code status h b =
     \<lparr>StatusCode = code, Status = status, RespHeader = h, RespBody = (b, None)\<rparr>"

text \<open>
  A stand-in for \<open>encoding/json\<close> on Boolean values: it marshals a Boolean, passes a
  raw message that is a JSON literal and rejects any other (as \<open>json.Marshal\<close> rejects
  a \<open>RawMessage\<close> that is not valid JSON), and unmarshals the two Boolean literals.
\<close>

definition test_Marshal :: "bool body \<Rightarrow> error + string" where
  "test_Marshal b =
     (case b of
        BodyNil \<Rightarrow> Inr ''null''
      | BodyString s \<Rightarrow> Inr (''\"'' @ s @ ''\"'')
      | BodyRawMessage s \<Rightarrow>
          (if s \<in> set [''true'', ''false'', ''null''] then Inr s
           else Inl (ExternalError ''json: error calling MarshalJSON for type json.RawMessage''))
      | BodyBytes s \<Rightarrow> Inl (ExternalError ''json: unsupported value'')
      | BodyValue v \<Rightarrow> Inr (if v then ''true'' else ''false''))"

definition test_Unmarshal :: "string \<Rightarrow> bool \<Rightarrow> error option \<times> bool" where
  "test_Unmarshal text d =
     (if text = ''true'' then (None, True)
      else if text = ''false'' then (None, False)
      else (Some (ExternalError ''json: invalid character''), d))"

definition test_codec :: "(bool, bool) Codec" where
  "test_codec = \<lparr>Marshal = test_Marshal, Unmarshal = test_Unmarshal\<rparr>"

text \<open>
  Two hooks that talk through the context: the first adds an entry to it, the second
  rejects the request when the context it gets is not empty.
\<close>

definition mark_option :: RequestOption where
  "mark_option = (\<lambda>ctx req. ((''seen'', ''1'') # ctx, None, req))"

definition check_option :: RequestOption where
  "check_option =
     (\<lambda>ctx req. (ctx, if ctx \<noteq> [] then Some (ExternalError ''saw'') else None, req))"

text \<open>
  A client with one default option.  The caller's array holds two hooks and the slice
  handed to \<open>SetDefaultReqOpts\<close> is its first element, with capacity 2.
\<close>

definition test_defaults_world :: "(error + Response) \<Rightarrow> World" where
  "test_defaults_world r =
     (test_world r)\<lparr>heap := [[SetHeader (\<lambda>k. k) ''A'' ''1'', SetHeader (\<lambda>k. k) ''Z'' ''9'']]\<rparr>"

definition test_defaults_client :: Client where
  "test_defaults_client = SetDefaultReqOpts test_client \<lparr>base = 0, off = 0, len = 1, cap = 2\<rparr>"

text \<open>
  A server that echoes the request body with status 200, and a codec that can neither
  marshal nor unmarshal its values (as \<open>encoding/json\<close> cannot marshal a channel).
\<close>

definition echo_world :: World where
  "echo_world =
     \<lparr>heap = [],
      transport = (\<lambda>k req. Inr \<lparr>StatusCode = 200, Status = ''200 OK'', RespHeader = [],
                                   RespBody = (Body req, None)\<rparr>),
      dispatched = 0, files = (\<lambda>p. None), trace = []\<rparr>"

definition broken_codec :: "(unit, unit) Codec" where
  "broken_codec =
     \<lparr>Marshal = (\<lambda>b. Inl (ExternalError ''json: unsupported type'')),
      Unmarshal = (\<lambda>text d. (Some (ExternalError ''json: cannot unmarshal''), d))\<rparr>"

section \<open>The retry classifier\<close>

text \<open>
  C5.  \<open>DefaultRetryClassifier.Classify\<close> returns \<open>Succeed\<close> exactly for the \<open>nil\<close> error
  and \<open>Retry\<close> for every other error, whatever its kind (an \<open>HTTPError\<close> or an error of
  a collaborator alike); it never returns \<open>Fail\<close>.
\<close>

theorem Classify_nil_or_retry:
  "(Classify err = Succeed) = (err = None)
   \<and> Classify (Some (HTTPError code text)) = Retry
   \<and> Classify (Some (ExternalError m)) = Retry
   \<and> Classify (Some e) = Retry
   \<and> Classify err \<noteq> Fail"
  by (simp add: Classify_def)

section \<open>The query option\<close>

lemma values_at_Add:
  "values_at (values_Add q k v) k' = values_at q k' @ (if k' = k then [v] else [])"
  by (induction q k v rule: values_Add.induct) (auto simp: values_at_def)

lemma values_at_fold_Add:
  "values_at (fold (\<lambda>vv q. values_Add q k vv) vs q) k'
     = values_at q k' @ (if k' = k then vs else [])"
  by (induction vs arbitrary: q) (auto simp: values_at_Add)

lemma values_at_add_values:
  "distinct (map fst vals) \<Longrightarrow>
     values_at (add_values q vals) k = values_at q k @ values_at vals k"
proof (induction vals arbitrary: q)
  case Nil
  then show ?case by (simp add: add_values_def values_at_def)
next
  case (Cons p vals)
  obtain k' vs where p: "p = (k', vs)" by (cases p)
  from Cons.prems p have d: "distinct (map fst vals)" and nin: "k' \<notin> fst ` set vals" by auto
  have step: "add_values q (p # vals) = add_values (fold (\<lambda>vv q. values_Add q k' vv) vs q) vals"
    by (simp add: add_values_def p)
  have a: "values_at (add_values q (p # vals)) k
      = (values_at q k @ (if k = k' then vs else [])) @ values_at vals k"
    by (simp only: step Cons.IH [OF d] values_at_fold_Add)
  have b: "values_at (p # vals) k = (if k = k' then vs else values_at vals k)"
    by (simp add: values_at_def p)
  have c: "values_at vals k' = []"
    using nin by (simp add: values_at_def map_of_eq_None_iff [THEN iffD2])
  show ?case
    by (simp add: a b c)
qed

lemma upperhex_unhex: "d < 16 \<Longrightarrow> ishex (upperhex d) \<and> unhex (upperhex d) = d
    \<and> upperhex d \<noteq> CHR ''&'' \<and> upperhex d \<noteq> CHR '';'' \<and> upperhex d \<noteq> CHR ''=''"
proof -
  assume d: "d < 16"
  have "list_all (\<lambda>d. ishex (upperhex d) \<and> unhex (upperhex d) = d
      \<and> upperhex d \<noteq> CHR ''&'' \<and> upperhex d \<noteq> CHR '';'' \<and> upperhex d \<noteq> CHR ''='') [0..<16]"
    by code_simp
  with d show ?thesis
    by (simp add: list_all_iff)
qed

lemma QueryEscape_chars:
  "CHR ''&'' \<notin> set (QueryEscape s) \<and> CHR '';'' \<notin> set (QueryEscape s) \<and> CHR ''='' \<notin> set (QueryEscape s)"
proof (induction s)
  case Nil
  then show ?case by simp
next
  case (Cons c s)
  have d: "of_char c div 16 < (16::nat)" "of_char c mod 16 < (16::nat)"
    by (rule less_mult_imp_div_less) simp_all   
  show ?case
    using Cons upperhex_unhex [OF d(1)] upperhex_unhex [OF d(2)]
    by (auto simp: shouldEscape_def)
qed

lemma QueryUnescape_QueryEscape: "QueryUnescape (QueryEscape s) = Inr s"
proof (induction s)
  case Nil
  then show ?case by simp
next
  case (Cons c s)
  have d: "of_char c div 16 < (16::nat)" "of_char c mod 16 < (16::nat)"
    by (rule less_mult_imp_div_less) simp_all
  have r: "char_of ((of_char c div 16) * 16 + of_char c mod 16 :: nat) = c"
    by simp
  show ?case
  proof (cases "c = CHR '' ''")
    case True
    with Cons show ?thesis by simp
  next
    case False
    show ?thesis
    proof (cases "shouldEscape c")
      case True
      with False Cons upperhex_unhex [OF d(1)] upperhex_unhex [OF d(2)] r show ?thesis
        by simp
    next
      case False
      then have "c \<noteq> CHR ''%''" "c \<noteq> CHR ''+''" by (auto simp: shouldEscape_def)
      with False \<open>c \<noteq> CHR '' ''\<close> Cons show ?thesis by simp
    qed
  qed
qed


lemma join_nonempty:
  "acc \<noteq> [] \<Longrightarrow>
     foldl (\<lambda>buf p. (if buf \<noteq> [] then buf @ ''&'' else buf) @ p) acc xs
       = acc @ concat (map (\<lambda>p. CHR ''&'' # p) xs)"
  by (induction xs arbitrary: acc) simp_all

lemma join_start:
  "x \<noteq> [] \<Longrightarrow>
     foldl (\<lambda>buf p. (if buf \<noteq> [] then buf @ ''&'' else buf) @ p) [] (x # xs)
       = x @ concat (map (\<lambda>p. CHR ''&'' # p) xs)"
  by (simp add: join_nonempty)

lemma Cut_found: "sep \<notin> set x \<Longrightarrow> Cut sep (x @ sep # rest) = (x, rest)"
proof -
  assume "sep \<notin> set x"
  then have "takeWhile (\<lambda>c. c \<noteq> sep) (x @ sep # rest) = x
      \<and> dropWhile (\<lambda>c. c \<noteq> sep) (x @ sep # rest) = sep # rest"
    by (induction x) auto
  then show ?thesis by (simp add: Cut_def)
qed

lemma Cut_missing: "sep \<notin> set x \<Longrightarrow> Cut sep x = (x, [])"
proof -
  assume "sep \<notin> set x"
  then have "takeWhile (\<lambda>c. c \<noteq> sep) x = x" "dropWhile (\<lambda>c. c \<noteq> sep) x = []"
    by (induction x) auto
  then show ?thesis unfolding Cut_def by (simp only: drop_Nil)
qed

lemma parse_pair:
  "parseQuery (m, err) (QueryEscape k @ CHR ''='' # QueryEscape v) = (values_Add m k v, err)"
  "parseQuery (m, err) (QueryEscape k @ CHR ''='' # QueryEscape v @ CHR ''&'' # rest)
     = parseQuery (values_Add m k v, err) rest"
proof -
  let ?x = "QueryEscape k @ CHR ''='' # QueryEscape v"
  have amp: "CHR ''&'' \<notin> set ?x" and semi: "CHR '';'' \<notin> set ?x"
    using QueryEscape_chars [of k] QueryEscape_chars [of v] by auto
  have c1: "Cut (CHR ''&'') (QueryEscape k @ CHR ''='' # QueryEscape v @ CHR ''&'' # rest) = (?x, rest)"
    using Cut_found [OF amp, of rest] by simp
  have c2: "Cut (CHR ''='') ?x = (QueryEscape k, QueryEscape v)"
    using Cut_found [of "CHR ''=''" "QueryEscape k" "QueryEscape v"] QueryEscape_chars [of k]
    by simp
  have c3: "Cut (CHR ''&'') ?x = (?x, [])"
    by (rule Cut_missing [OF amp])
  have e: "parseQuery (values_Add m k v, err) [] = (values_Add m k v, err)"
    by (subst parseQuery.simps) simp
  show "parseQuery (m, err) ?x = (values_Add m k v, err)"
    using semi by (subst parseQuery.simps) (simp add: c2 c3 e QueryUnescape_QueryEscape)
  show "parseQuery (m, err) (QueryEscape k @ CHR ''='' # QueryEscape v @ CHR ''&'' # rest)
      = parseQuery (values_Add m k v, err) rest"
    using semi by (subst parseQuery.simps) (simp add: c1 c2 QueryUnescape_QueryEscape)
qed

lemma parse_join:
  "parseQuery (m, err)
     (foldl (\<lambda>buf p. (if buf \<noteq> [] then buf @ ''&'' else buf) @ p) []
        (map (\<lambda>(k, v). QueryEscape k @ ''='' @ QueryEscape v) ps))
     = (fold (\<lambda>(k, v) m. values_Add m k v) ps m, err)"
proof (induction ps arbitrary: m)
  case Nil
  show ?case by (subst parseQuery.simps) simp
next
  case (Cons p ps)
  obtain k v where p: "p = (k, v)" by (cases p)
  show ?case
  proof (cases ps)
    case Nil
    then show ?thesis by (simp add: p parse_pair(1))
  next
    case (Cons p' ps')
    obtain k' v' where p': "p' = (k', v')" by (cases p')
    have "foldl (\<lambda>buf p. (if buf \<noteq> [] then buf @ ''&'' else buf) @ p) []
        (map (\<lambda>(k, v). QueryEscape k @ ''='' @ QueryEscape v) (p # ps))
      = QueryEscape k @ CHR ''='' # QueryEscape v @ CHR ''&'' #
        foldl (\<lambda>buf p. (if buf \<noteq> [] then buf @ ''&'' else buf) @ p) []
          (map (\<lambda>(k, v). QueryEscape k @ ''='' @ QueryEscape v) ps)"
      by (simp add: p p' Cons join_nonempty)
    then show ?thesis
      by (simp only: parse_pair(2) Cons.IH) (simp add: p)
  qed
qed

lemma values_at_fold_pairs:
  "values_at (fold (\<lambda>(k, v) m. values_Add m k v) ps m) k'
     = values_at m k' @ map snd (filter (\<lambda>p. fst p = k') ps)"
  by (induction ps arbitrary: m) (auto simp: values_at_Add)

lemma filter_key_pairs:
  "distinct ks \<Longrightarrow>
     map snd (filter (\<lambda>p. fst p = k') (concat (map (\<lambda>k. map (Pair k) (f k)) ks)))
       = (if k' \<in> set ks then f k' else [])"
proof (induction ks)
  case Nil
  then show ?case by simp
next
  case (Cons k ks)
  have a: "filter (\<lambda>p. fst p = k') (map (Pair k) (f k)) = (if k = k' then map (Pair k) (f k) else [])"
    by (induction "f k") auto
  from Cons show ?case
    by (auto simp: a comp_def)
qed

lemma Encode_pairs:
  "Encode q = foldl (\<lambda>buf p. (if buf \<noteq> [] then buf @ ''&'' else buf) @ p) []
     (map (\<lambda>(k, v). QueryEscape k @ ''='' @ QueryEscape v)
        (concat (map (\<lambda>k. map (Pair k) (values_at q k)) (sort (map fst q)))))"
  by (simp add: Encode_def map_concat comp_def)

lemma ParseQuery_Encode:
  assumes "distinct (map fst q)"
  shows "values_at (fst (ParseQuery (Encode q))) k = values_at q k"
    and "snd (ParseQuery (Encode q)) = None"
proof -
  have d: "distinct (sort (map fst q))" using assms by simp
  have n: "values_at q k = []" if "k \<notin> set (map fst q)"
    using that by (simp add: values_at_def map_of_eq_None_iff [THEN iffD2])
  have p: "ParseQuery (Encode q)
      = (fold (\<lambda>(k, v) m. values_Add m k v)
           (concat (map (\<lambda>k. map (Pair k) (values_at q k)) (sort (map fst q)))) [], None)"
    unfolding ParseQuery_def Encode_pairs by (rule parse_join)
  have e: "values_at [] k = []" by (simp add: values_at_def)
  show "values_at (fst (ParseQuery (Encode q))) k = values_at q k"
    using n by (simp add: p values_at_fold_pairs filter_key_pairs [OF d] e)
  show "snd (ParseQuery (Encode q)) = None"
    by (simp add: p)
qed

lemma keys_values_Add:
  "map fst (values_Add q k v) = (if k \<in> set (map fst q) then map fst q else map fst q @ [k])"
  by (induction q k v rule: values_Add.induct) auto

lemma distinct_values_Add:
  "distinct (map fst q) \<Longrightarrow> distinct (map fst (values_Add q k v))"
  by (simp add: keys_values_Add)

lemma distinct_parseQuery:
  "distinct (map fst (fst me)) \<Longrightarrow> distinct (map fst (fst (parseQuery me query)))"
proof (induction me query rule: parseQuery.induct)
  case (1 me query)
  show ?case
    using "1.IH" "1.prems"
    by (subst parseQuery.simps)
      (auto simp: Let_def distinct_values_Add split: prod.splits sum.splits)
qed

lemma distinct_add_values:
  "distinct (map fst q) \<Longrightarrow> distinct (map fst (add_values q vals))"
proof -
  have inner: "distinct (map fst (fold (\<lambda>vv q. values_Add q k vv) vs q))"
    if "distinct (map fst q)" for k vs q
    using that by (induction vs arbitrary: q) (simp_all add: distinct_values_Add)
  show "distinct (map fst q) \<Longrightarrow> distinct (map fst (add_values q vals))"
    unfolding add_values_def
    by (induction vals arbitrary: q) (auto simp: inner)
qed

lemma distinct_URL_Query: "distinct (map fst (URL_Query u))"
  using distinct_parseQuery [of "([], None)" "RawQuery u"]
  by (simp add: URL_Query_def ParseQuery_def)

text \<open>
  C8, as amended.  \<open>SetQuery\<close> merges additively over the pairs of the URL's query that
  \<open>net/url\<close> parses (\<open>URL.Query\<close>).  For a \<open>url.Values\<close> argument (a map: its keys are
  distinct), the option returns the context as it is and no error, and writes back the
  encoding of the merged query; in the query of the resulting URL every key has the
  values \<open>URL.Query\<close> gave for it, in their order, followed by the values supplied for it,
  in their order.  A pair of the old query that does not parse is not in the new one.
\<close>

theorem SetQuery_additive:
  "distinct (map fst vals) \<Longrightarrow>
     SetQuery vals ctx req
       = (ctx, None,
          req\<lparr>Url := (Url req)\<lparr>RawQuery := Encode (add_values (URL_Query (Url req)) vals)\<rparr>\<rparr>)
     \<and> (\<forall>k. values_at (URL_Query (Url (snd (snd (SetQuery vals ctx req))))) k
              = values_at (URL_Query (Url req)) k @ values_at vals k)"
proof -
  assume d: "distinct (map fst vals)"
  let ?q = "add_values (URL_Query (Url req)) vals"
  have dq: "distinct (map fst ?q)"
    by (rule distinct_add_values [OF distinct_URL_Query])
  have s: "SetQuery vals ctx req = (ctx, None, req\<lparr>Url := (Url req)\<lparr>RawQuery := Encode ?q\<rparr>\<rparr>)"
    by (simp add: SetQuery_def)
  have u: "URL_Query (v\<lparr>RawQuery := x\<rparr>) = fst (ParseQuery x)" for v x
    by (simp add: URL_Query_def)
  have "values_at (URL_Query (Url (snd (snd (SetQuery vals ctx req))))) k
      = values_at (URL_Query (Url req)) k @ values_at vals k" for k
    by (simp add: s u ParseQuery_Encode(1) [OF dq] values_at_add_values [OF d])
  with s show ?thesis by blast
qed

text \<open>
  The scenario of the claim: \<open>SetQuery({"x":["1","2"]})\<close> on \<open>http://h/path?x=0\<close>
  gives the query string \<open>x=0&x=1&x=2\<close>.
\<close>

theorem SetQuery_additive_witness:
  "distinct (map fst [(''x'', [''1'', ''2''])])
   \<and> SetQuery [(''x'', [''1'', ''2''])] [] test_request
       = ([], None, test_request\<lparr>Url := (Url test_request)\<lparr>RawQuery := ''x=0&x=1&x=2''\<rparr>\<rparr>)
   \<and> URL_String (Url (snd (snd (SetQuery [(''x'', [''1'', ''2''])] [] test_request))))
       = ''http://h/path?x=0&x=1&x=2''
   \<and> values_at (URL_Query (Url (snd (snd (SetQuery [(''x'', [''1'', ''2''])] [] test_request))))) ''x''
       = [''0'', ''1'', ''2'']"
proof -
  have d: "distinct (map fst [(''x'', [''1'', ''2''])])" by simp
  have q: "URL_Query (Url test_request) = [(''x'', [''0''])]"
    by code_simp
  have e: "Encode (add_values [(''x'', [''0''])] [(''x'', [''1'', ''2''])]) = ''x=0&x=1&x=2''"
    by code_simp
  have v: "values_at [(''x'', [''0''])] ''x'' @ values_at [(''x'', [''1'', ''2''])] ''x''
      = [''0'', ''1'', ''2'']"
    by (simp add: values_at_def)
  have u: "URL_String ((Url test_request)\<lparr>RawQuery := ''x=0&x=1&x=2''\<rparr>) = ''http://h/path?x=0&x=1&x=2''"
    by (simp add: URL_String_def test_request_def)
  note t = SetQuery_additive [OF d, of "[]" test_request]
  have r1: "SetQuery [(''x'', [''1'', ''2''])] [] test_request
       = ([], None, test_request\<lparr>Url := (Url test_request)\<lparr>RawQuery := ''x=0&x=1&x=2''\<rparr>\<rparr>)"
    using t [THEN conjunct1] by (simp only: q e)
  have r2: "values_at (URL_Query (Url (snd (snd (SetQuery [(''x'', [''1'', ''2''])] [] test_request))))) ''x''
       = [''0'', ''1'', ''2'']"
    using t [THEN conjunct2, THEN spec, of "''x''"] by (simp only: q v)
  have r3: "URL_String (Url (snd (snd (SetQuery [(''x'', [''1'', ''2''])] [] test_request))))
       = ''http://h/path?x=0&x=1&x=2''"
    by (simp add: r1 u)
  show ?thesis
    by (intro conjI d r1 r2 r3)
qed

text \<open>
  The claim as stated fails for a URL whose query has a pair that \<open>net/url\<close> does not
  parse: \<open>URL.Query\<close> drops a pair with a semicolon or a bad escape, and \<open>SetQuery\<close> writes
  back only what it parsed.  On \<open>a=1;b=2&e=%zz&x=0\<close> the keys \<open>a\<close>, \<open>b\<close> and \<open>e\<close> are gone,
  even when no value is supplied.
\<close>

theorem SetQuery_drops_unparsed_pairs:
  "RawQuery (Url (test_request\<lparr>Url := (Url test_request)\<lparr>RawQuery := ''a=1;b=2&e=%zz&x=0''\<rparr>\<rparr>))
     = ''a=1;b=2&e=%zz&x=0''
   \<and> SetQuery [] [] (test_request\<lparr>Url := (Url test_request)\<lparr>RawQuery := ''a=1;b=2&e=%zz&x=0''\<rparr>\<rparr>)
     = ([], None, test_request\<lparr>Url := (Url test_request)\<lparr>RawQuery := ''x=0''\<rparr>\<rparr>)
   \<and> SetQuery [(''x'', [''1''])] []
       (test_request\<lparr>Url := (Url test_request)\<lparr>RawQuery := ''a=1;b=2&e=%zz&x=0''\<rparr>\<rparr>)
     = ([], None, test_request\<lparr>Url := (Url test_request)\<lparr>RawQuery := ''x=0&x=1''\<rparr>\<rparr>)"
proof -
  have q: "URL_Query ((Url test_request)\<lparr>RawQuery := ''a=1;b=2&e=%zz&x=0''\<rparr>) = [(''x'', [''0''])]"
    by code_simp
  have e: "Encode (add_values [(''x'', [''0''])] []) = ''x=0''"
    "Encode (add_values [(''x'', [''0''])] [(''x'', [''1''])]) = ''x=0&x=1''"
    by code_simp+
  show ?thesis
    by (simp add: SetQuery_def q e)
qed

section \<open>The option chain and the trace\<close>

lemma option_loop_world:
  "option_loop fs k ctx req w = (err, ctx', req', w') \<Longrightarrow>
     \<exists>n\<le>length fs. w' = w\<lparr>trace := trace w @ map EvOption [k..<k + n]\<rparr> \<and> (err = None \<longrightarrow> n = length fs) \<and> (err \<noteq> None \<longrightarrow> 0 < n)"
proof (induction fs k ctx req w rule: option_loop.induct)
  case (1 k ctx req w)
  then show ?case by auto
next
  case (2 reqOpt rest k ctx req w)
  obtain c1 e1 r1 where f: "reqOpt ctx req = (c1, e1, r1)" by (cases "reqOpt ctx req")
  show ?case
  proof (cases e1)
    case None
    with 2 f obtain n where n: "n \<le> length rest"
      "w' = (emit (EvOption k) w)\<lparr>trace := trace (emit (EvOption k) w) @ map EvOption [Suc k..<Suc k + n]\<rparr>"
      "err = None \<longrightarrow> n = length rest" 
      by fastforce
    have "[k..<k + Suc n] = k # [Suc k..<Suc k + n]"
      by (simp add: upt_conv_Cons)
    with n show ?thesis
      by (intro exI [of _ "Suc n"]) (simp add: emit_def)
  next
    case (Some e)
    with 2 f show ?thesis
      by (intro exI [of _ "1"]) (auto simp: emit_def)
  qed
qed

lemma count_logs_options [simp]: "count_logs (tr @ map EvOption ks) = count_logs tr"
  by (induction ks arbitrary: tr rule: rev_induct) (simp_all add: count_logs_def)

lemma count_attempts_options [simp]: "count_attempts (tr @ map EvOption ks) = count_attempts tr"
  by (simp add: count_attempts_def filter_empty_conv [THEN iffD2])

lemma prepare_world:
  assumes "prepare env cl ctx method url body opts w = r"
  shows "case r of
           Inl (e, w1) \<Rightarrow> \<exists>h ks. w1 = w\<lparr>heap := h, trace := trace w @ map EvOption ks\<rparr>
         | Inr (ctx', req, w1) \<Rightarrow> \<exists>h ks. w1 = w\<lparr>heap := h, trace := trace w @ map EvOption ks\<rparr>"
proof (cases "NewRequest env method url body")
  case (Inl e)
  with assms have "r = Inl (e, w)" by (simp add: prepare_def)
  moreover have "\<exists>h ks. w = w\<lparr>heap := h, trace := trace w @ map EvOption ks\<rparr>"
    by (rule exI [of _ "heap w"], rule exI [of _ "[]"]) simp
  ultimately show ?thesis by simp
next
  case (Inr req0)
  obtain s h where a: "go_append (heap w) (reqOpts cl) opts = (s, h)"
    by (cases "go_append (heap w) (reqOpts cl) opts")
  obtain err c1 r1 w1 where l: "option_loop (slice_elems h s) 0 ctx req0 (w\<lparr>heap := h\<rparr>) = (err, c1, r1, w1)"
    by (metis prod_cases4)
  from option_loop_world [OF l] obtain n where
    w1: "w1 = w\<lparr>heap := h, trace := trace w @ map EvOption [0..<0 + n]\<rparr>" by auto
  from assms Inr a l have "r = (case err of Some e \<Rightarrow> Inl (e, w1) | None \<Rightarrow> Inr (c1, r1, w1))"
    by (simp add: prepare_def split: option.splits)
  with w1 show ?thesis by (cases err) (auto intro: exI)
qed

lemmas run_defs =
  Client_do_def prepare_def NewRequest_def go_append_def slice_elems_def array_at_def
  do_send_def handle_response_def read_response_def dispatch_def default_timeout_def
  do_logger_def log_error_def log_debug_def emit_def ReadAll_def cookie_summary_def
  Header_Get_def values_at_def DefaultTimeout_def
  test_env_def test_client_def test_world_def test_response_def test_Parse_def test_gunzip_def
  nil_slice_def failing_option_def count_logs_def URL_String_def Let_def

section \<open>The status check and the body\<close>

lemma do_after_prepare:
  "prepare env cl ctx method url body opts (emit EvAttempt w) = Inr (ctx', req, w1) \<Longrightarrow>
     Client_do env cl ctx method url body opts w = do_send env cl method body req w1"
  by (simp add: Client_do_def)

lemma do_send_response:
  "transport w1 (dispatched w1) req = Inr resp \<Longrightarrow>
     do_send env cl method body req w1
       = (fst (handle_response env (default_timeout cl) (do_logger (default_timeout cl) method req body)
                 resp (snd (dispatch req w1))),
          default_timeout cl,
          snd (handle_response env (default_timeout cl) (do_logger (default_timeout cl) method req body)
                 resp (snd (dispatch req w1))))"
  by (simp add: do_send_def dispatch_def Let_def split: prod.splits)

lemma handle_response_bad_status:
  "StatusCode resp < 200 \<or> 300 \<le> StatusCode resp \<Longrightarrow>
     handle_response env cl fs resp w
       = (([], Some (HTTPError (StatusCode resp) (Status resp))),
          log_error fs ''bad http status code'' (HTTPError (StatusCode resp) (Status resp)) w)"
  by (auto simp: handle_response_def Let_def)

lemma handle_response_2xx:
  "200 \<le> StatusCode resp \<Longrightarrow> StatusCode resp < 300 \<Longrightarrow>
     fst (handle_response env cl fs resp w)
       = (case body_text env resp of Inl e \<Rightarrow> ([], Some e) | Inr text \<Rightarrow> (text, None))"
  by (simp add: handle_response_def read_response_def body_text_def Let_def split: sum.splits)

text \<open>
  C1, as amended.  For a response the pipeline receives (the request was built, every
  option returned no error, the transport returned the response) with status code \<open>s\<close>:
  if \<open>s < 200\<close> or \<open>s \<ge> 300\<close>, \<open>do\<close> returns the empty string and the \<open>HTTPError\<close> made of
  \<open>s\<close> and the status text, and after the dispatch it only logs: the body is neither
  opened by the decompressor nor read.  If \<open>200 \<le> s < 300\<close>, the status check passes and
  \<open>do\<close> returns what reading the body gives: the decoded text with a \<open>nil\<close> error when
  the body decodes and reads without error, the empty string with the error of the
  decompressor or of the read otherwise.
\<close>

theorem do_status_check:
  assumes p: "prepare env cl ctx method url body opts (emit EvAttempt w) = Inr (ctx', req, w1)"
      and t: "transport w1 (dispatched w1) req = Inr resp"
  shows "(StatusCode resp < 200 \<or> 300 \<le> StatusCode resp \<longrightarrow>
            fst (Client_do env cl ctx method url body opts w)
              = ([], Some (HTTPError (StatusCode resp) (Status resp)))
          \<and> trace (snd (snd (Client_do env cl ctx method url body opts w)))
              = trace w1 @
                [EvDispatch req,
                 EvLog \<lparr>level = ErrorLevel, msg = ''bad http status code'',
                        flds = do_logger (default_timeout cl) method req body
                               @ [ZapError (HTTPError (StatusCode resp) (Status resp)),
                                  ZapDuration ''proc_time'']\<rparr>])
       \<and> (200 \<le> StatusCode resp \<and> StatusCode resp < 300 \<longrightarrow>
            fst (Client_do env cl ctx method url body opts w)
              = (case body_text env resp of Inl e \<Rightarrow> ([], Some e) | Inr text \<Rightarrow> (text, None)))"
proof (intro conjI impI)
  assume bad: "StatusCode resp < 200 \<or> 300 \<le> StatusCode resp"
  show "fst (Client_do env cl ctx method url body opts w)
      = ([], Some (HTTPError (StatusCode resp) (Status resp)))"
    by (simp add: do_after_prepare [OF p] do_send_response [OF t] handle_response_bad_status [OF bad])
  show "trace (snd (snd (Client_do env cl ctx method url body opts w)))
      = trace w1 @
        [EvDispatch req,
         EvLog \<lparr>level = ErrorLevel, msg = ''bad http status code'',
                flds = do_logger (default_timeout cl) method req body
                       @ [ZapError (HTTPError (StatusCode resp) (Status resp)),
                          ZapDuration ''proc_time'']\<rparr>]"
    by (simp add: do_after_prepare [OF p] do_send_response [OF t] handle_response_bad_status [OF bad]
          log_error_def dispatch_def emit_def)
next
  assume "200 \<le> StatusCode resp \<and> StatusCode resp < 300"
  then show "fst (Client_do env cl ctx method url body opts w)
      = (case body_text env resp of Inl e \<Rightarrow> ([], Some e) | Inr text \<Rightarrow> (text, None))"
    by (simp add: do_after_prepare [OF p] do_send_response [OF t] handle_response_2xx)
qed

theorem do_status_check_witness:
  "prepare test_env test_client [] ''GET'' ''http://h/path'' [] []
       (emit EvAttempt (test_world (Inr (test_response 503 ''503 Service Unavailable'' [] ''retry-me''))))
     = Inr ([], \<lparr>Method = ''GET'', Url = \<lparr>Base = ''http://h/path'', RawQuery = [], ForceQuery = False, Fragment = []\<rparr>, Header = [], Body = []\<rparr>,
            (test_world (Inr (test_response 503 ''503 Service Unavailable'' [] ''retry-me'')))\<lparr>trace := [EvAttempt]\<rparr>)
   \<and> fst (Client_do test_env test_client [] ''GET'' ''http://h/path'' [] []
          (test_world (Inr (test_response 503 ''503 Service Unavailable'' [] ''retry-me''))))
       = ([], Some (HTTPError 503 ''503 Service Unavailable''))
   \<and> filter is_body_read (trace (snd (snd (Client_do test_env test_client [] ''GET'' ''http://h/path'' [] []
          (test_world (Inr (test_response 503 ''503 Service Unavailable'' [] ''retry-me''))))))) = []
   \<and> prepare test_env test_client [] ''GET'' ''http://h/path'' [] []
       (emit EvAttempt (test_world (Inr (test_response 200 ''200 OK'' [] ''hello''))))
     = Inr ([], \<lparr>Method = ''GET'', Url = \<lparr>Base = ''http://h/path'', RawQuery = [], ForceQuery = False, Fragment = []\<rparr>, Header = [], Body = []\<rparr>,
            (test_world (Inr (test_response 200 ''200 OK'' [] ''hello'')))\<lparr>trace := [EvAttempt]\<rparr>)
   \<and> fst (Client_do test_env test_client [] ''GET'' ''http://h/path'' [] []
          (test_world (Inr (test_response 200 ''200 OK'' [] ''hello''))))
       = (''hello'', None)"
proof -
  let ?req = "\<lparr>Method = ''GET'', Url = \<lparr>Base = ''http://h/path'', RawQuery = [], ForceQuery = False, Fragment = []\<rparr>, Header = [], Body = []\<rparr>"
  let ?r1 = "test_response 503 ''503 Service Unavailable'' [] ''retry-me''"
  let ?r2 = "test_response 200 ''200 OK'' [] ''hello''"
  have p1: "prepare test_env test_client [] ''GET'' ''http://h/path'' [] [] (emit EvAttempt (test_world (Inr ?r1)))
      = Inr ([], ?req, (test_world (Inr ?r1))\<lparr>trace := [EvAttempt]\<rparr>)"
    by (simp add: run_defs)
  have t1: "transport ((test_world (Inr ?r1))\<lparr>trace := [EvAttempt]\<rparr>)
      (dispatched ((test_world (Inr ?r1))\<lparr>trace := [EvAttempt]\<rparr>)) ?req = Inr ?r1"
    by (simp add: test_world_def)
  have p2: "prepare test_env test_client [] ''GET'' ''http://h/path'' [] [] (emit EvAttempt (test_world (Inr ?r2)))
      = Inr ([], ?req, (test_world (Inr ?r2))\<lparr>trace := [EvAttempt]\<rparr>)"
    by (simp add: run_defs)
  have t2: "transport ((test_world (Inr ?r2))\<lparr>trace := [EvAttempt]\<rparr>)
      (dispatched ((test_world (Inr ?r2))\<lparr>trace := [EvAttempt]\<rparr>)) ?req = Inr ?r2"
    by (simp add: test_world_def)
  have b2: "body_text test_env ?r2 = Inr ''hello''"
    by (simp add: body_text_def run_defs)
  from do_status_check [OF p1 t1] do_status_check [OF p2 t2] p1 p2 b2 show ?thesis
    by (simp add: test_response_def)
qed

text \<open>
  The claim as stated fails: a response with status 200 whose \<open>Content-Encoding\<close> is
  \<open>gzip\<close> and whose body is not a gzip stream makes \<open>do\<close> return an error (lines 239
  to 241 of \<open>do\<close>).
\<close>

theorem do_2xx_bad_gzip_fails:
  "StatusCode (test_response 200 ''200 OK'' [(''Content-Encoding'', [''gzip''])] ''retry-me'') = 200
   \<and> fst (Client_do test_env test_client [] ''GET'' ''http://h/path'' [] []
          (test_world (Inr (test_response 200 ''200 OK'' [(''Content-Encoding'', [''gzip''])] ''retry-me''))))
       = ([], Some (ExternalError ''gzip: invalid header''))"
  by (simp add: run_defs)



section \<open>Diagnostic records\<close>

lemma handle_response_logs:
  "count_logs (trace (snd (handle_response env cl fs resp w))) = Suc (count_logs (trace w))"
  by (simp add: handle_response_def read_response_def log_error_def log_debug_def emit_def
        count_logs_def Let_def split: sum.splits)

lemma dispatch_logs:
  "count_logs (trace (snd (dispatch req w))) = count_logs (trace w)"
  by (simp add: dispatch_def emit_def count_logs_def)

lemma do_send_logs:
  "count_logs (trace (snd (snd (do_send env cl method body req w)))) = Suc (count_logs (trace w))"
proof -
  obtain r w' where d: "dispatch req w = (r, w')" by force
  with dispatch_logs [of req w] have t: "count_logs (trace w') = count_logs (trace w)" by simp
  show ?thesis
  proof (cases r)
    case (Inl e)
    with d t show ?thesis
      by (simp add: do_send_def Let_def log_error_def emit_def count_logs_def)
  next
    case (Inr resp)
    with d have "snd (snd (do_send env cl method body req w))
        = snd (handle_response env (default_timeout cl)
                 (do_logger (default_timeout cl) method req body) resp w')"
      by (simp add: do_send_def Let_def split: prod.splits)
    with t show ?thesis by (simp add: handle_response_logs)
  qed
qed

text \<open>
  C6, as amended.  An invocation of \<open>do\<close> that gets as far as the dispatch (the request
  was built and every option returned no error) emits exactly one diagnostic record,
  whatever happens then; an invocation that fails while the request is built or in the
  option chain emits none; no invocation emits more than one.
\<close>

theorem do_log_records:
  "count_logs (trace (snd (snd (Client_do env cl ctx method url body opts w))))
     = count_logs (trace w)
       + (case prepare env cl ctx method url body opts (emit EvAttempt w) of
            Inl r \<Rightarrow> 0 | Inr r \<Rightarrow> 1)
   \<and> count_logs (trace (snd (snd (Client_do env cl ctx method url body opts w))))
       \<le> count_logs (trace w) + 1"
proof -
  let ?v = "emit EvAttempt w"
  have w0: "count_logs (trace ?v) = count_logs (trace w)"
    by (simp add: emit_def count_logs_def)
  obtain r where r: "prepare env cl ctx method url body opts ?v = r" by simp
  have eq: "count_logs (trace (snd (snd (Client_do env cl ctx method url body opts w))))
     = count_logs (trace w) + (case r of Inl r \<Rightarrow> 0 | Inr r \<Rightarrow> 1)"
  proof (cases r)
    case (Inl a)
    obtain e w1 where a: "a = (e, w1)" by (cases a)
    from prepare_world [OF r] Inl a w0 have "count_logs (trace w1) = count_logs (trace w)"
      by auto
    with r Inl a show ?thesis by (simp add: Client_do_def)
  next
    case (Inr b)
    obtain c1 req w1 where b: "b = (c1, req, w1)" by (cases b)
    from prepare_world [OF r] Inr b w0 have "count_logs (trace w1) = count_logs (trace w)"
      by auto
    with r Inr b show ?thesis by (simp add: Client_do_def do_send_logs)
  qed
  then show ?thesis using r by (auto split: sum.splits)
qed

text \<open>
  The claim as stated fails: an option that returns an error, and a method that
  \<open>http.NewRequest\<close> rejects, end \<open>do\<close> before its logger exists (lines 196 to 206), and
  no record is emitted.
\<close>

theorem do_early_failure_logs_nothing:
  "fst (Client_do test_env test_client [] ''GET'' ''http://h/path'' [] [failing_option]
          (test_world (Inr (test_response 200 ''200 OK'' [] ''ok''))))
     = ([], Some (ExternalError ''rejected''))
   \<and> count_logs (trace (snd (snd (Client_do test_env test_client [] ''GET'' ''http://h/path'' []
          [failing_option] (test_world (Inr (test_response 200 ''200 OK'' [] ''ok'')))))))
     = 0
   \<and> fst (Client_do test_env test_client [] ''G T'' ''http://h/path'' [] []
          (test_world (Inr (test_response 200 ''200 OK'' [] ''ok''))))
     = ([], Some (ExternalError ''net/http: invalid method''))
   \<and> count_logs (trace (snd (snd (Client_do test_env test_client [] ''G T'' ''http://h/path'' []
          [] (test_world (Inr (test_response 200 ''200 OK'' [] ''ok'')))))))
     = 0"
  by (simp add: run_defs)

section \<open>The order of the options\<close>

lemma option_loop_append:
  "option_loop (xs @ ys) k ctx req w =
     (case option_loop xs k ctx req w of
        (Some e, r) \<Rightarrow> (Some e, r)
      | (None, ctx', req', w') \<Rightarrow> option_loop ys (k + length xs) ctx' req' w')"
  by (induction xs k ctx req w rule: option_loop.induct) (auto split: prod.splits option.splits)

lemma go_append_elems:
  "slice_ok h s \<Longrightarrow> go_append h s xs = (s', h') \<Longrightarrow> slice_elems h' s' = slice_elems h s @ xs"
  by (auto simp: go_append_def slice_elems_def slice_ok_def array_at_def drop_take split: if_splits)

lemma option_loop_stops:
  assumes pre: "option_loop pre 0 ctx req w = (None, ctx1, req1, w1)"
      and f: "f ctx1 req1 = (ctx2, Some e, req2)"
  shows "option_loop (pre @ f # post) 0 ctx req w
           = (Some e, ctx2, req2, w\<lparr>trace := trace w @ map EvOption [0..<Suc (length pre)]\<rparr>)"
proof -
  from option_loop_world [OF pre]
  have w1: "w1 = w\<lparr>trace := trace w @ map EvOption [0..<length pre]\<rparr>" by auto
  show ?thesis
    by (simp add: option_loop_append pre f w1 emit_def)
qed

lemma option_loop_chain:
  "length cs = Suc (length hs) \<Longrightarrow> length rs = Suc (length hs) \<Longrightarrow>
   (\<forall>i<length hs. (hs ! i) (cs ! i) (rs ! i) = (cs ! Suc i, None, rs ! Suc i)) \<Longrightarrow>
     option_loop hs k (cs ! 0) (rs ! 0) v
       = (None, cs ! length hs, rs ! length hs,
          v\<lparr>trace := trace v @ map EvOption [k..<k + length hs]\<rparr>)"
proof (induction hs arbitrary: cs rs k v)
  case Nil
  then show ?case by simp
next
  case (Cons f fs)
  from Cons.prems(1) obtain c0 cs' where cs: "cs = c0 # cs'" by (cases cs) auto
  from Cons.prems(2) obtain r0 rs' where rs: "rs = r0 # rs'" by (cases rs) auto
  from Cons.prems(3) [rule_format, of 0] have f: "f c0 r0 = (cs' ! 0, None, rs' ! 0)"
    by (simp add: cs rs)
  have step: "\<forall>i<length fs. (fs ! i) (cs' ! i) (rs' ! i) = (cs' ! Suc i, None, rs' ! Suc i)"
  proof (intro allI impI)
    fix i assume "i < length fs"
    with Cons.prems(3) [rule_format, of "Suc i"] show
      "(fs ! i) (cs' ! i) (rs' ! i) = (cs' ! Suc i, None, rs' ! Suc i)"
      by (simp add: cs rs)
  qed
  have l: "length cs' = Suc (length fs)" "length rs' = Suc (length fs)"
    using Cons.prems(1,2) by (simp_all add: cs rs)
  have u: "[k..<Suc (k + length fs)] = k # [Suc k..<Suc (k + length fs)]"
    by (subst upt_rec) simp
  show ?case
    using Cons.IH [OF l step, of "Suc k" "emit (EvOption k) v"]
    by (simp add: cs rs f u emit_def del: upt_Suc)
qed

lemma option_loop_chain_fails:
  assumes k: "k < length hs"
      and l: "length cs = Suc k" "length rs = Suc k"
      and ok: "\<forall>i<k. (hs ! i) (cs ! i) (rs ! i) = (cs ! Suc i, None, rs ! Suc i)"
      and f: "(hs ! k) (cs ! k) (rs ! k) = (c', Some e, r')"
  shows "option_loop hs 0 (cs ! 0) (rs ! 0) v
           = (Some e, c', r', v\<lparr>trace := trace v @ map EvOption [0..<Suc k]\<rparr>)"
proof -
  let ?pre = "take k hs"
  have lp: "length ?pre = k" using k by simp
  have hs: "hs = ?pre @ hs ! k # drop (Suc k) hs"
    using k by (simp add: id_take_nth_drop)
  have okp: "\<forall>i<length ?pre. (?pre ! i) (cs ! i) (rs ! i) = (cs ! Suc i, None, rs ! Suc i)"
    using ok k by simp
  have pre: "option_loop ?pre 0 (cs ! 0) (rs ! 0) v
      = (None, cs ! k, rs ! k, v\<lparr>trace := trace v @ map EvOption [0..<0 + length ?pre]\<rparr>)"
    using option_loop_chain [of cs ?pre rs 0 v] l okp lp by simp
  have "option_loop (?pre @ hs ! k # drop (Suc k) hs) 0 (cs ! 0) (rs ! 0) v
      = (Some e, c', r', v\<lparr>trace := trace v @ map EvOption [0..<Suc (length ?pre)]\<rparr>)"
    by (rule option_loop_stops [where f = "hs ! k", OF pre f])
  with hs lp show ?thesis by simp
qed

text \<open>
  C3.  Once the request is built, \<open>do\<close> runs the hooks \<open>hs\<close>: the client's default
  options followed by the call's options, in that order.  Hook 0 gets the caller's
  context and the new request; hook \<open>i + 1\<close> gets the context and the request that hook \<open>i\<close>
  returned (\<open>cs\<close> and \<open>rs\<close> list them).  If every hook returns no error, \<open>do\<close> goes on to
  the dispatch with the request the last hook left, every hook having run once, in
  order.  If hook \<open>k\<close> is the first to return an error, \<open>do\<close> returns that error with the
  empty string and the client as it was; the trace holds the calls of hooks 0 to \<open>k\<close> and
  nothing else, and the rest of the world is unchanged but for the appended array: no
  later hook runs and nothing is dispatched.
\<close>

theorem do_option_chain:
  assumes ok: "slice_ok (heap w) (reqOpts cl)"
      and nr: "NewRequest env method url body = Inr req"
      and hs: "hs = slice_elems (heap w) (reqOpts cl) @ opts"
  shows "(\<forall>cs rs.
            length cs = Suc (length hs) \<and> length rs = Suc (length hs)
            \<and> cs ! 0 = ctx \<and> rs ! 0 = req
            \<and> (\<forall>i<length hs. (hs ! i) (cs ! i) (rs ! i) = (cs ! Suc i, None, rs ! Suc i)) \<longrightarrow>
              Client_do env cl ctx method url body opts w
                = do_send env cl method body (rs ! length hs)
                    (w\<lparr>heap := snd (go_append (heap w) (reqOpts cl) opts),
                       trace := trace w @ EvAttempt # map EvOption [0..<length hs]\<rparr>))
       \<and> (\<forall>k cs rs c' e r'.
            k < length hs \<and> length cs = Suc k \<and> length rs = Suc k
            \<and> cs ! 0 = ctx \<and> rs ! 0 = req
            \<and> (\<forall>i<k. (hs ! i) (cs ! i) (rs ! i) = (cs ! Suc i, None, rs ! Suc i))
            \<and> (hs ! k) (cs ! k) (rs ! k) = (c', Some e, r') \<longrightarrow>
              Client_do env cl ctx method url body opts w
                = (([], Some e), cl,
                   w\<lparr>heap := snd (go_append (heap w) (reqOpts cl) opts),
                      trace := trace w @ EvAttempt # map EvOption [0..<Suc k]\<rparr>))"
proof -
  let ?h = "snd (go_append (heap w) (reqOpts cl) opts)"
  let ?v = "(emit EvAttempt w)\<lparr>heap := ?h\<rparr>"
  obtain s h where a: "go_append (heap w) (reqOpts cl) opts = (s, h)"
    by (cases "go_append (heap w) (reqOpts cl) opts")
  from go_append_elems [OF ok a] hs have el: "slice_elems h s = hs" by simp
  have A: "Client_do env cl ctx method url body opts w =
           (case option_loop hs 0 ctx req ?v of
              (Some e, ctx', req', w1) \<Rightarrow> (([], Some e), cl, w1)
            | (None, ctx', req', w1) \<Rightarrow> do_send env cl method body req' w1)"
    using nr a el
    by (simp add: Client_do_def prepare_def emit_def split: prod.splits option.splits)
  have S: "Client_do env cl ctx method url body opts w
        = do_send env cl method body (rs ! length hs)
            (w\<lparr>heap := ?h, trace := trace w @ EvAttempt # map EvOption [0..<length hs]\<rparr>)"
    if "length cs = Suc (length hs)" "length rs = Suc (length hs)" "cs ! 0 = ctx" "rs ! 0 = req"
       "\<forall>i<length hs. (hs ! i) (cs ! i) (rs ! i) = (cs ! Suc i, None, rs ! Suc i)"
    for cs rs
    using option_loop_chain [OF that(1) that(2) that(5), of 0 ?v] that(3) that(4)
    by (simp add: A emit_def)
  have F: "Client_do env cl ctx method url body opts w
        = (([], Some e), cl, w\<lparr>heap := ?h, trace := trace w @ EvAttempt # map EvOption [0..<Suc k]\<rparr>)"
    if "k < length hs" "length cs = Suc k" "length rs = Suc k" "cs ! 0 = ctx" "rs ! 0 = req"
       "\<forall>i<k. (hs ! i) (cs ! i) (rs ! i) = (cs ! Suc i, None, rs ! Suc i)"
       "(hs ! k) (cs ! k) (rs ! k) = (c', Some e, r')"
    for k cs rs c' e r'
    using option_loop_chain_fails [OF that(1) that(2) that(3) that(6) that(7), of ?v] that(4) that(5)
    by (simp add: A emit_def)
  from S F show ?thesis by blast
qed

lemmas run_defs2 = run_defs test_defaults_world_def test_defaults_client_def SetDefaultReqOpts_def
  slice_full_def slice_ok_def

text \<open>
  A default hook and three per-call hooks: the second per-call hook sees the entry the
  first one put into the context and rejects the request, the third never runs.  With
  the two hooks in the other order every hook succeeds and the request is dispatched.
\<close>

theorem do_option_chain_witness:
  "slice_ok (heap (test_defaults_world (Inr (test_response 200 ''200 OK'' [] ''ok''))))
       (reqOpts test_defaults_client)
   \<and> NewRequest test_env ''GET'' ''http://h/path?x=0'' [] = Inr test_request
   \<and> slice_elems (heap (test_defaults_world (Inr (test_response 200 ''200 OK'' [] ''ok''))))
         (reqOpts test_defaults_client)
       = [SetHeader (\<lambda>k. k) ''A'' ''1'']
   \<and> Client_do test_env test_defaults_client [] ''GET'' ''http://h/path?x=0'' []
         [mark_option, check_option, SetHeader (\<lambda>k. k) ''B'' ''2'']
         (test_defaults_world (Inr (test_response 200 ''200 OK'' [] ''ok'')))
       = (([], Some (ExternalError ''saw'')), test_defaults_client,
          (test_defaults_world (Inr (test_response 200 ''200 OK'' [] ''ok'')))
            \<lparr>heap := [[SetHeader (\<lambda>k. k) ''A'' ''1'', SetHeader (\<lambda>k. k) ''Z'' ''9''],
                      [SetHeader (\<lambda>k. k) ''A'' ''1'', mark_option, check_option,
                       SetHeader (\<lambda>k. k) ''B'' ''2'']],
             trace := [EvAttempt, EvOption 0, EvOption 1, EvOption 2]\<rparr>)
   \<and> fst (Client_do test_env test_defaults_client [] ''GET'' ''http://h/path?x=0'' []
         [check_option, mark_option]
         (test_defaults_world (Inr (test_response 200 ''200 OK'' [] ''ok''))))
       = (''ok'', None)
   \<and> filter is_dispatch (trace (snd (snd (Client_do test_env test_defaults_client [] ''GET''
         ''http://h/path?x=0'' [] [check_option, mark_option]
         (test_defaults_world (Inr (test_response 200 ''200 OK'' [] ''ok'')))))))
       = [EvDispatch (test_request\<lparr>Header := [(''A'', [''1''])]\<rparr>)]"
proof -
  let ?w = "test_defaults_world (Inr (test_response 200 ''200 OK'' [] ''ok''))"
  let ?A = "SetHeader (\<lambda>k. k) ''A'' ''1''"
  let ?B = "SetHeader (\<lambda>k. k) ''B'' ''2''"
  let ?reqA = "test_request\<lparr>Header := [(''A'', [''1''])]\<rparr>"
  have ok: "slice_ok (heap ?w) (reqOpts test_defaults_client)"
    by (simp add: run_defs2)
  have nr: "NewRequest test_env ''GET'' ''http://h/path?x=0'' [] = Inr test_request"
    by (simp add: run_defs test_request_def)
  have ds: "slice_elems (heap ?w) (reqOpts test_defaults_client) = [?A]"
    by (simp add: run_defs2)
  have a: "?A [] test_request = ([], None, ?reqA)"
    by (simp add: SetHeader_def Header_Set_def test_request_def)
  have m: "mark_option [] ?reqA = ([(''seen'', ''1'')], None, ?reqA)"
    by (simp add: mark_option_def)
  have c: "check_option [(''seen'', ''1'')] ?reqA = ([(''seen'', ''1'')], Some (ExternalError ''saw''), ?reqA)"
    by (simp add: check_option_def)
  have c0: "check_option [] ?reqA = ([], None, ?reqA)"
    by (simp add: check_option_def)
  have h1: "snd (go_append (heap ?w) (reqOpts test_defaults_client) [mark_option, check_option, ?B])
      = [[?A, SetHeader (\<lambda>k. k) ''Z'' ''9''], [?A, mark_option, check_option, ?B]]"
    by (simp add: run_defs2)
  have t: "trace ?w = []"
    by (simp add: test_defaults_world_def test_world_def)
  have u: "[0..<Suc 2] = [0, 1, 2]" by (simp add: upt_rec)
  note thm1 = do_option_chain [OF ok nr, where hs = "[?A, mark_option, check_option, ?B]"
      and opts = "[mark_option, check_option, ?B]" and ctx = "[]"]
  have fail: "Client_do test_env test_defaults_client [] ''GET'' ''http://h/path?x=0'' []
         [mark_option, check_option, ?B] ?w
       = (([], Some (ExternalError ''saw'')), test_defaults_client,
          ?w\<lparr>heap := snd (go_append (heap ?w) (reqOpts test_defaults_client) [mark_option, check_option, ?B]),
             trace := trace ?w @ EvAttempt # map EvOption [0..<Suc 2]\<rparr>)"
  proof (rule thm1 [THEN conjunct2, rule_format,
        where k = 2 and cs = "[[], [], [(''seen'', ''1'')]]" and rs = "[test_request, ?reqA, ?reqA]"
          and c' = "[(''seen'', ''1'')]" and r' = ?reqA])
    show "[?A, mark_option, check_option, ?B] = slice_elems (heap ?w) (reqOpts test_defaults_client) @ [mark_option, check_option, ?B]"
      by (simp add: ds)
    show "2 < length [?A, mark_option, check_option, ?B]
       \<and> length [[], [], [(''seen'', ''1'')]] = Suc 2
       \<and> length [test_request, ?reqA, ?reqA] = Suc 2
       \<and> [[], [], [(''seen'', ''1'')]] ! 0 = []
       \<and> [test_request, ?reqA, ?reqA] ! 0 = test_request
       \<and> (\<forall>i<2. ([?A, mark_option, check_option, ?B] ! i) ([[], [], [(''seen'', ''1'')]] ! i)
               ([test_request, ?reqA, ?reqA] ! i)
             = ([[], [], [(''seen'', ''1'')]] ! Suc i, None, [test_request, ?reqA, ?reqA] ! Suc i))
       \<and> ([?A, mark_option, check_option, ?B] ! 2) ([[], [], [(''seen'', ''1'')]] ! 2)
             ([test_request, ?reqA, ?reqA] ! 2)
           = ([(''seen'', ''1'')], Some (ExternalError ''saw''), ?reqA)"
      using a m c by (auto simp: less_Suc_eq numeral_2_eq_2)
  qed
  note thm2 = do_option_chain [OF ok nr, where hs = "[?A, check_option, mark_option]"
      and opts = "[check_option, mark_option]" and ctx = "[]"]
  have succ: "Client_do test_env test_defaults_client [] ''GET'' ''http://h/path?x=0'' []
         [check_option, mark_option] ?w
       = do_send test_env test_defaults_client ''GET'' []
           ([test_request, ?reqA, ?reqA, ?reqA] ! length [?A, check_option, mark_option])
           (?w\<lparr>heap := snd (go_append (heap ?w) (reqOpts test_defaults_client) [check_option, mark_option]),
              trace := trace ?w @ EvAttempt # map EvOption [0..<length [?A, check_option, mark_option]]\<rparr>)"
  proof (rule thm2 [THEN conjunct1, rule_format,
        where cs = "[[], [], [], [(''seen'', ''1'')]]" and rs = "[test_request, ?reqA, ?reqA, ?reqA]"])
    show "[?A, check_option, mark_option] = slice_elems (heap ?w) (reqOpts test_defaults_client) @ [check_option, mark_option]"
      by (simp add: ds)
    show "length [[], [], [], [(''seen'', ''1'')]] = Suc (length [?A, check_option, mark_option])
       \<and> length [test_request, ?reqA, ?reqA, ?reqA] = Suc (length [?A, check_option, mark_option])
       \<and> [[], [], [], [(''seen'', ''1'')]] ! 0 = []
       \<and> [test_request, ?reqA, ?reqA, ?reqA] ! 0 = test_request
       \<and> (\<forall>i<length [?A, check_option, mark_option].
             ([?A, check_option, mark_option] ! i) ([[], [], [], [(''seen'', ''1'')]] ! i)
               ([test_request, ?reqA, ?reqA, ?reqA] ! i)
             = ([[], [], [], [(''seen'', ''1'')]] ! Suc i, None, [test_request, ?reqA, ?reqA, ?reqA] ! Suc i))"
      using a m c0 by (auto simp: less_Suc_eq)
  qed
  have r1: "Client_do test_env test_defaults_client [] ''GET'' ''http://h/path?x=0'' []
         [mark_option, check_option, ?B] ?w
       = (([], Some (ExternalError ''saw'')), test_defaults_client,
          ?w\<lparr>heap := [[?A, SetHeader (\<lambda>k. k) ''Z'' ''9''], [?A, mark_option, check_option, ?B]],
             trace := [EvAttempt, EvOption 0, EvOption 1, EvOption 2]\<rparr>)"
    by (simp only: fail h1 t u append_Nil list.map)
  have r2: "fst (Client_do test_env test_defaults_client [] ''GET'' ''http://h/path?x=0'' []
         [check_option, mark_option] ?w) = (''ok'', None)"
    by (simp add: succ) (simp add: run_defs2 test_request_def)
  have r3: "filter is_dispatch (trace (snd (snd (Client_do test_env test_defaults_client [] ''GET''
         ''http://h/path?x=0'' [] [check_option, mark_option] ?w))))
       = [EvDispatch ?reqA]"
    by (simp add: succ) (simp add: run_defs2 test_request_def upt_rec)
  show ?thesis
    by (intro conjI ok nr ds r1 r2 r3)
qed

section \<open>Retry until the schedule is used up\<close>

lemma handle_response_attempts:
  "count_attempts (trace (snd (handle_response env cl fs resp w))) = count_attempts (trace w)"
  by (simp add: handle_response_def read_response_def log_error_def log_debug_def emit_def
        count_attempts_def Let_def split: sum.splits)

lemma do_send_attempts:
  "count_attempts (trace (snd (snd (do_send env cl method body req w)))) = count_attempts (trace w)"
proof -
  obtain r w' where d: "dispatch req w = (r, w')" by force
  then have t: "count_attempts (trace w') = count_attempts (trace w)"
    by (auto simp: dispatch_def emit_def count_attempts_def)
  show ?thesis
  proof (cases r)
    case (Inl e)
    with d t show ?thesis
      by (simp add: do_send_def Let_def log_error_def emit_def count_attempts_def)
  next
    case (Inr resp)
    with d have "snd (snd (do_send env cl method body req w))
        = snd (handle_response env (default_timeout cl)
                 (do_logger (default_timeout cl) method req body) resp w')"
      by (simp add: do_send_def Let_def split: prod.splits)
    with t show ?thesis by (simp add: handle_response_attempts)
  qed
qed

lemma do_attempts:
  "count_attempts (trace (snd (snd (Client_do env cl ctx method url body opts w))))
     = Suc (count_attempts (trace w))"
proof -
  let ?v = "emit EvAttempt w"
  have v: "count_attempts (trace ?v) = Suc (count_attempts (trace w))"
    by (simp add: emit_def count_attempts_def)
  obtain r where r: "prepare env cl ctx method url body opts ?v = r" by simp
  show ?thesis
  proof (cases r)
    case (Inl a)
    obtain e w1 where a: "a = (e, w1)" by (cases a)
    from prepare_world [OF r] Inl a v have "count_attempts (trace w1) = Suc (count_attempts (trace w))"
      by auto
    with r Inl a show ?thesis by (simp add: Client_do_def)
  next
    case (Inr b)
    obtain c1 req w1 where b: "b = (c1, req, w1)" by (cases b)
    from prepare_world [OF r] Inr b v have "count_attempts (trace w1) = Suc (count_attempts (trace w))"
      by auto
    with r Inr b show ?thesis by (simp add: Client_do_def do_send_attempts)
  qed
qed

lemma Run_every_attempt_fails:
  "every_attempt_fails sleep work bs s \<Longrightarrow>
     Run Classify bs sleep work s = work (last_attempt_state sleep work bs s)"
proof (induction bs arbitrary: s)
  case Nil
  then show ?case by (cases "work s") (auto simp: Classify_def)
next
  case (Cons b bs)
  then show ?case by (cases "work s") (auto simp: Classify_def)
qed

lemma closure_attempts:
  "count_attempts (trace (snd (snd (snd (do_closure env ctx method url body opts s)))))
     = Suc (count_attempts (trace (snd (snd s))))"
proof -
  obtain res cl w where s: "s = (res, cl, w)" by (cases s)
  show ?thesis
    using do_attempts [of env cl ctx "method" url body opts w]
    by (auto simp: s do_closure_def split: prod.splits)
qed

lemma last_attempt_state_attempts:
  "count_attempts (trace (snd (snd (last_attempt_state backoff_sleep
       (do_closure env ctx method url body opts) bs s))))
     = count_attempts (trace (snd (snd s))) + length bs"
proof (induction bs arbitrary: s)
  case Nil
  then show ?case by simp
next
  case (Cons b bs)
  obtain err res cl' w' where c: "do_closure env ctx method url body opts s = (err, res, cl', w')"
    by (metis prod_cases4)
  have "count_attempts (trace (snd (snd (backoff_sleep b (snd (do_closure env ctx method url body opts s))))))
      = Suc (count_attempts (trace (snd (snd s))))"
    using closure_attempts [of env ctx "method" url body opts s]
    by (simp add: c backoff_sleep_def emit_def count_attempts_def)
  with Cons.IH show ?case by simp
qed

lemma last_attempt_fails:
  "every_attempt_fails sleep work bs s \<Longrightarrow> fst (work (last_attempt_state sleep work bs s)) \<noteq> None"
  by (induction bs arbitrary: s) auto

lemma SetRetry_retrier:
  "retrier (SetRetry cl bs) = Some (retrier_New bs Classify)"
  "class (retrier_New bs Classify) = Classify"
  "backoff (retrier_New bs Classify) = bs"
  by (simp_all add: SetRetry_def retrier_New_def)

text \<open>
  C2.  For a client whose retry policy was set by \<open>SetRetry\<close> with a schedule of length
  N (the classifier is then \<open>DefaultRetryClassifier\<close>, which answers \<open>Retry\<close> to every
  error): if every physical attempt fails, \<open>Client.Do\<close> invokes \<open>do\<close> exactly N + 1 times
  and returns the error of the last attempt.  \<open>Retrier.Run\<close> is modelled from the spec.
\<close>

theorem Do_retries_exhausted:
  assumes "every_attempt_fails backoff_sleep (do_closure env ctx method url body opts) bs
             ([], SetRetry cl bs, w)"
  shows "count_attempts (trace (snd (snd (Client_Do env (SetRetry cl bs) ctx method url body opts w))))
           = count_attempts (trace w) + (length bs + 1)
       \<and> snd (fst (Client_Do env (SetRetry cl bs) ctx method url body opts w))
           = fst (do_closure env ctx method url body opts
                    (last_attempt_state backoff_sleep (do_closure env ctx method url body opts) bs
                       ([], SetRetry cl bs, w)))
       \<and> snd (fst (Client_Do env (SetRetry cl bs) ctx method url body opts w)) \<noteq> None"
proof -
  let ?work = "do_closure env ctx method url body opts"
  let ?s = "([], SetRetry cl bs, w)"
  let ?l = "last_attempt_state backoff_sleep ?work bs ?s"
  have run: "Run Classify bs backoff_sleep ?work ?s = ?work ?l"
    by (rule Run_every_attempt_fails [OF assms])
  have Do: "Client_Do env (SetRetry cl bs) ctx method url body opts w
      = (case ?work ?l of (err, result, cl', w') \<Rightarrow> ((result, err), cl', w'))"
    by (simp add: Client_Do_def SetRetry_retrier run)
  have fails: "fst (?work ?l) \<noteq> None"
    by (rule last_attempt_fails [OF assms])
  have n: "count_attempts (trace (snd (snd (snd (?work ?l))))) = Suc (count_attempts (trace w) + length bs)"
    using closure_attempts [of env ctx "method" url body opts ?l]
      last_attempt_state_attempts [of env ctx "method" url body opts bs ?s]
    by simp
  obtain err res cl' w' where l: "?work ?l = (err, res, cl', w')"
    by (metis prod_cases4)
  from fails n show ?thesis
    by (simp add: Do l)
qed

text \<open>
  The scenario of the spec: a server answering 503 to every request and two retries at
  10 ms give three attempts and the error \<open>HTTPError{503, "503 Service Unavailable"}\<close>.
\<close>

theorem Do_retries_exhausted_witness:
  "every_attempt_fails backoff_sleep (do_closure test_env [] ''GET'' ''http://h/path'' [] [])
       [10000000, 10000000]
       ([], SetRetry test_client [10000000, 10000000],
        test_world (Inr (test_response 503 ''503 Service Unavailable'' [] ''retry-me'')))
   \<and> count_attempts (trace (snd (snd (Client_Do test_env (SetRetry test_client [10000000, 10000000])
         [] ''GET'' ''http://h/path'' [] []
         (test_world (Inr (test_response 503 ''503 Service Unavailable'' [] ''retry-me'')))))))
       = 3
   \<and> snd (fst (Client_Do test_env (SetRetry test_client [10000000, 10000000])
         [] ''GET'' ''http://h/path'' [] []
         (test_world (Inr (test_response 503 ''503 Service Unavailable'' [] ''retry-me'')))))
       = Some (HTTPError 503 ''503 Service Unavailable'')"
proof -
  let ?work = "do_closure test_env [] ''GET'' ''http://h/path'' [] []"
  let ?s = "([], SetRetry test_client [10000000, 10000000],
             test_world (Inr (test_response 503 ''503 Service Unavailable'' [] ''retry-me'')))"
  have h: "every_attempt_fails backoff_sleep ?work [10000000, 10000000] ?s"
    by (simp add: do_closure_def backoff_sleep_def SetRetry_def retrier_New_def run_defs)
  have l: "fst (?work (last_attempt_state backoff_sleep ?work [10000000, 10000000] ?s))
      = Some (HTTPError 503 ''503 Service Unavailable'')"
    by (simp add: do_closure_def backoff_sleep_def SetRetry_def retrier_New_def run_defs)
  have t: "count_attempts (trace (test_world (Inr (test_response 503 ''503 Service Unavailable'' [] ''retry-me'')))) = 0"
    by (simp add: test_world_def count_attempts_def)
  from Do_retries_exhausted [OF h] h l t show ?thesis
    by simp
qed

section \<open>The content wrappers\<close>

lemma wrapper_finish_text:
  "wrapper_finish codec (Some d) ((text, None), cl', w') =
     (if text \<noteq> [] then
        (fst (Unmarshal codec text d), Some (snd (Unmarshal codec text d)), cl',
         (case fst (Unmarshal codec text d) of
            None \<Rightarrow> w'
          | Some e \<Rightarrow> wrapper_log ''unmarshal response body'' e w'))
      else (None, Some d, cl', w'))"
  by (simp add: wrapper_finish_def unmarshal_result_def split: prod.splits option.splits)

lemmas wrapper_defs =
  JSONClient_Do_def XMLClient_Do_def json_body_def xml_body_def wrapper_finish_def
  unmarshal_result_def wrapper_log_def Client_Do_def SetTypeJSON_def SetTypeXML_def SetHeader_def
  Header_Set_def test_codec_def test_Marshal_def test_Unmarshal_def broken_codec_def echo_world_def

text \<open>
  C7, as amended.  \<open>JSONClient.Do\<close> (\<open>XMLClient.Do\<close>) puts the content-type option
  \<open>application/json; charset=UTF-8\<close> (\<open>application/xml; charset=UTF-8\<close>) in front of the
  caller's options.  A \<open>string\<close> body and a \<open>[]byte\<close> body are handed to \<open>Client.Do\<close> as
  they are; so is a \<open>json.RawMessage\<close> body in \<open>JSONClient.Do\<close>, without the codec (in
  \<open>XMLClient.Do\<close> it is marshaled like a value of any other type).  A body of another
  type is marshaled by the codec; a marshal error is logged and returned, and nothing is
  dispatched.  On a successful call with a destination and a response text that is not
  empty, the text is unmarshaled into the destination and an unmarshal error is logged
  and returned.
\<close>

theorem wrappers_encode_and_decode:
  "JSONClient_Do env codec cl ctx method url (BodyString s) result opts w
     = wrapper_finish codec result
         (Client_Do env cl ctx method url s (SetTypeJSON (canon env) # opts) w)
   \<and> JSONClient_Do env codec cl ctx method url (BodyBytes s) result opts w
     = wrapper_finish codec result
         (Client_Do env cl ctx method url s (SetTypeJSON (canon env) # opts) w)
   \<and> JSONClient_Do env codec cl ctx method url (BodyRawMessage s) result opts w
     = wrapper_finish codec result
         (Client_Do env cl ctx method url s (SetTypeJSON (canon env) # opts) w)
   \<and> JSONClient_Do env codec cl ctx method url (BodyValue v) result opts w
     = (case Marshal codec (BodyValue v) of
          Inl e \<Rightarrow> (Some e, result, cl, wrapper_log ''marshal request body'' e w)
        | Inr data \<Rightarrow>
            wrapper_finish codec result
              (Client_Do env cl ctx method url data (SetTypeJSON (canon env) # opts) w))
   \<and> XMLClient_Do env codec cl ctx method url (BodyString s) result opts w
     = wrapper_finish codec result
         (Client_Do env cl ctx method url s (SetTypeXML (canon env) # opts) w)
   \<and> XMLClient_Do env codec cl ctx method url (BodyBytes s) result opts w
     = wrapper_finish codec result
         (Client_Do env cl ctx method url s (SetTypeXML (canon env) # opts) w)
   \<and> XMLClient_Do env codec cl ctx method url (BodyRawMessage s) result opts w
     = (case Marshal codec (BodyRawMessage s) of
          Inl e \<Rightarrow> (Some e, result, cl, wrapper_log ''marshal request body'' e w)
        | Inr data \<Rightarrow>
            wrapper_finish codec result
              (Client_Do env cl ctx method url data (SetTypeXML (canon env) # opts) w))
   \<and> XMLClient_Do env codec cl ctx method url (BodyValue v) result opts w
     = (case Marshal codec (BodyValue v) of
          Inl e \<Rightarrow> (Some e, result, cl, wrapper_log ''marshal request body'' e w)
        | Inr data \<Rightarrow>
            wrapper_finish codec result
              (Client_Do env cl ctx method url data (SetTypeXML (canon env) # opts) w))
   \<and> dispatched (wrapper_log ''marshal request body'' e w) = dispatched w
   \<and> filter is_dispatch (trace (wrapper_log ''marshal request body'' e w))
       = filter is_dispatch (trace w)
   \<and> SetTypeJSON (canon env) = SetHeader (canon env) ''Content-Type'' ''application/json; charset=UTF-8''
   \<and> SetTypeXML (canon env) = SetHeader (canon env) ''Content-Type'' ''application/xml; charset=UTF-8''
   \<and> wrapper_finish codec (Some d) ((text, None), cl', w')
     = (if text \<noteq> [] then
          (fst (Unmarshal codec text d), Some (snd (Unmarshal codec text d)), cl',
           (case fst (Unmarshal codec text d) of
              None \<Rightarrow> w'
            | Some e \<Rightarrow> wrapper_log ''unmarshal response body'' e w'))
        else (None, Some d, cl', w'))"
  by (simp add: JSONClient_Do_def XMLClient_Do_def json_body_def xml_body_def wrapper_finish_text
        wrapper_log_def emit_def SetTypeJSON_def SetTypeXML_def split: sum.splits)

theorem wrappers_encode_and_decode_witness:
  "JSONClient_Do test_env broken_codec test_client [] ''POST'' ''http://h/echo''
       (BodyValue ()) None [] echo_world
     = (Some (ExternalError ''json: unsupported type''), None, test_client,
        wrapper_log ''marshal request body'' (ExternalError ''json: unsupported type'') echo_world)
   \<and> fst (JSONClient_Do test_env test_codec test_client [] ''POST'' ''http://h/echo''
            (BodyValue True) (Some False) [] echo_world) = None
   \<and> fst (snd (JSONClient_Do test_env test_codec test_client [] ''POST'' ''http://h/echo''
            (BodyValue True) (Some False) [] echo_world)) = Some True
   \<and> filter is_dispatch (trace (snd (snd (snd
          (JSONClient_Do test_env test_codec test_client [] ''POST'' ''http://h/echo''
             (BodyValue True) (Some False) [] echo_world)))))
       = [EvDispatch \<lparr>Method = ''POST'',
            Url = \<lparr>Base = ''http://h/echo'', RawQuery = [], ForceQuery = False, Fragment = []\<rparr>,
            Header = [(''Content-Type'', [''application/json; charset=UTF-8''])],
            Body = ''true''\<rparr>]
   \<and> fst (XMLClient_Do test_env test_codec test_client [] ''POST'' ''http://h/echo''
            (BodyRawMessage ''x'') (Some False) [] echo_world)
       = Some (ExternalError ''json: error calling MarshalJSON for type json.RawMessage'')"
proof -
  have m1: "Marshal broken_codec (BodyValue ()) = Inl (ExternalError ''json: unsupported type'')"
    by (simp add: broken_codec_def)
  have m2: "Marshal test_codec (BodyValue True) = Inr ''true''"
    by (simp add: test_codec_def test_Marshal_def)
  have m3: "Marshal test_codec (BodyRawMessage ''x'')
      = Inl (ExternalError ''json: error calling MarshalJSON for type json.RawMessage'')"
    by (simp add: test_codec_def test_Marshal_def)
  have c: "Client_Do test_env test_client [] ''POST'' ''http://h/echo'' ''true''
              [SetTypeJSON (canon test_env)] echo_world
      = ((''true'', None), test_client\<lparr>Timeout := DefaultTimeout\<rparr>,
         snd (snd (Client_Do test_env test_client [] ''POST'' ''http://h/echo'' ''true''
              [SetTypeJSON (canon test_env)] echo_world)))"
    by (simp add: wrapper_defs run_defs)
  have d: "filter is_dispatch (trace (snd (snd (Client_Do test_env test_client [] ''POST''
              ''http://h/echo'' ''true'' [SetTypeJSON (canon test_env)] echo_world))))
       = [EvDispatch \<lparr>Method = ''POST'',
            Url = \<lparr>Base = ''http://h/echo'', RawQuery = [], ForceQuery = False, Fragment = []\<rparr>,
            Header = [(''Content-Type'', [''application/json; charset=UTF-8''])],
            Body = ''true''\<rparr>]"
    by (simp add: wrapper_defs run_defs)
  have u: "Unmarshal test_codec ''true'' False = (None, True)"
    by (simp add: test_codec_def test_Unmarshal_def)
  note j4 = wrappers_encode_and_decode [THEN conjunct2, THEN conjunct2, THEN conjunct2, THEN conjunct1]
  note x3 = wrappers_encode_and_decode [THEN conjunct2, THEN conjunct2, THEN conjunct2,
    THEN conjunct2, THEN conjunct2, THEN conjunct2, THEN conjunct1]
  have r1: "JSONClient_Do test_env broken_codec test_client [] ''POST'' ''http://h/echo''
       (BodyValue ()) None [] echo_world
     = (Some (ExternalError ''json: unsupported type''), None, test_client,
        wrapper_log ''marshal request body'' (ExternalError ''json: unsupported type'') echo_world)"
    by (simp add: j4 m1)
  have r2: "JSONClient_Do test_env test_codec test_client [] ''POST'' ''http://h/echo''
       (BodyValue True) (Some False) [] echo_world
     = (None, Some True, test_client\<lparr>Timeout := DefaultTimeout\<rparr>,
        snd (snd (Client_Do test_env test_client [] ''POST'' ''http://h/echo'' ''true''
              [SetTypeJSON (canon test_env)] echo_world)))"
    by (simp add: j4 m2) (subst c, simp add: wrapper_finish_text u)
  have r3: "fst (XMLClient_Do test_env test_codec test_client [] ''POST'' ''http://h/echo''
            (BodyRawMessage ''x'') (Some False) [] echo_world)
       = Some (ExternalError ''json: error calling MarshalJSON for type json.RawMessage'')"
    by (simp add: x3 m3)
  show ?thesis
    by (simp add: r1 r2 r3 d)
qed

text \<open>
  The claim as stated fails on \<open>json.RawMessage\<close>, a non-nil body that is neither a
  \<open>string\<close> nor a \<open>[]byte\<close>: \<open>JSONClient.Do\<close> sends it as it is (jsonclient.go, lines 68
  and 69), where the codec would reject it, and no marshal error is returned.
\<close>

theorem json_raw_message_is_not_marshaled:
  "Marshal test_codec (BodyRawMessage ''x'')
     = Inl (ExternalError ''json: error calling MarshalJSON for type json.RawMessage'')
   \<and> fst (JSONClient_Do test_env test_codec test_client [] ''POST'' ''http://h/echo''
            (BodyRawMessage ''x'') None [] echo_world) = None
   \<and> filter is_dispatch (trace (snd (snd (snd
          (JSONClient_Do test_env test_codec test_client [] ''POST'' ''http://h/echo''
             (BodyRawMessage ''x'') None [] echo_world)))))
       = [EvDispatch \<lparr>Method = ''POST'',
            Url = \<lparr>Base = ''http://h/echo'', RawQuery = [], ForceQuery = False, Fragment = []\<rparr>,
            Header = [(''Content-Type'', [''application/json; charset=UTF-8''])],
            Body = ''x''\<rparr>]"
  by (simp add: wrapper_defs run_defs)

lemma wrapper_finish_failure:
  "err \<noteq> None \<or> text = [] \<Longrightarrow>
     wrapper_finish codec result ((text, err), cl', w') = (err, result, cl', w')"
  by (cases err; cases result) (auto simp: wrapper_finish_def unmarshal_result_def)

text \<open>
  C10.  In \<open>JSONClient.Do\<close> and \<open>XMLClient.Do\<close>, when the plain-text call returns an
  error, or an empty response text, the wrapper returns that error (or none), the
  destination as it was and the world the plain-text call left, whatever \<open>Unmarshal\<close>
  would do: it is not invoked, and the destination keeps its value.
\<close>

theorem wrappers_leave_result_on_failure:
  "(json_body codec b = Inr data
      \<and> Client_Do env cl ctx meth url data (SetTypeJSON (canon env) # opts) w = ((str, err), cl', w')
      \<and> (err \<noteq> None \<or> str = []) \<longrightarrow>
        (\<forall>u. JSONClient_Do env (codec\<lparr>Unmarshal := u\<rparr>) cl ctx meth url b result opts w
               = (err, result, cl', w')))
   \<and> (xml_body codec b = Inr data
      \<and> Client_Do env cl ctx meth url data (SetTypeXML (canon env) # opts) w = ((str, err), cl', w')
      \<and> (err \<noteq> None \<or> str = []) \<longrightarrow>
        (\<forall>u. XMLClient_Do env (codec\<lparr>Unmarshal := u\<rparr>) cl ctx meth url b result opts w
               = (err, result, cl', w')))"
  by (auto simp: JSONClient_Do_def XMLClient_Do_def json_body_def xml_body_def
        wrapper_finish_failure split: body.splits)

theorem wrappers_leave_result_on_failure_witness:
  "fst (Client_Do test_env test_client [] ''GET'' ''http://h/path'' [] [SetTypeJSON (canon test_env)]
          (test_world (Inr (test_response 503 ''503 Service Unavailable'' [] ''true''))))
     = ([], Some (HTTPError 503 ''503 Service Unavailable''))
   \<and> fst (JSONClient_Do test_env test_codec test_client [] ''GET'' ''http://h/path'' BodyNil
            (Some False) [] (test_world (Inr (test_response 503 ''503 Service Unavailable'' [] ''true''))))
     = Some (HTTPError 503 ''503 Service Unavailable'')
   \<and> fst (snd (JSONClient_Do test_env test_codec test_client [] ''GET'' ''http://h/path'' BodyNil
            (Some False) [] (test_world (Inr (test_response 503 ''503 Service Unavailable'' [] ''true'')))))
     = Some False
   \<and> fst (Client_Do test_env test_client [] ''GET'' ''http://h/path'' [] [SetTypeXML (canon test_env)]
          (test_world (Inr (test_response 200 ''200 OK'' [] []))))
     = ([], None)
   \<and> fst (XMLClient_Do test_env test_codec test_client [] ''GET'' ''http://h/path'' BodyNil
            (Some False) [] (test_world (Inr (test_response 200 ''200 OK'' [] []))))
     = None
   \<and> fst (snd (XMLClient_Do test_env test_codec test_client [] ''GET'' ''http://h/path'' BodyNil
            (Some False) [] (test_world (Inr (test_response 200 ''200 OK'' [] [])))))
     = Some False"
proof -
  let ?w1 = "test_world (Inr (test_response 503 ''503 Service Unavailable'' [] ''true''))"
  let ?w2 = "test_world (Inr (test_response 200 ''200 OK'' [] []))"
  let ?c1 = "Client_Do test_env test_client [] ''GET'' ''http://h/path'' [] [SetTypeJSON (canon test_env)] ?w1"
  let ?c2 = "Client_Do test_env test_client [] ''GET'' ''http://h/path'' [] [SetTypeXML (canon test_env)] ?w2"
  have b1: "json_body test_codec (BodyNil :: bool body) = Inr []"
    by (simp add: json_body_def)
  have b2: "xml_body test_codec (BodyNil :: bool body) = Inr []"
    by (simp add: xml_body_def)
  have f1: "fst ?c1 = ([], Some (HTTPError 503 ''503 Service Unavailable''))"
    by (simp add: wrapper_defs run_defs)
  have f2: "fst ?c2 = ([], None)"
    by (simp add: wrapper_defs run_defs)
  have c1: "?c1 = (([], Some (HTTPError 503 ''503 Service Unavailable'')), fst (snd ?c1), snd (snd ?c1))"
    using f1 by (metis prod.collapse)
  have c2: "?c2 = (([], None), fst (snd ?c2), snd (snd ?c2))"
    using f2 by (metis prod.collapse)
  have t: "test_codec\<lparr>Unmarshal := Unmarshal test_codec\<rparr> = test_codec"
    by simp
  from wrappers_leave_result_on_failure
         [where codec = test_codec and b = BodyNil and data = "[]" and env = test_env
            and cl = test_client and ctx = "[]" and meth = "''GET''" and url = "''http://h/path''"
            and opts = "[]" and w = ?w1 and str = "[]" and result = "Some False"
            and err = "Some (HTTPError 503 ''503 Service Unavailable'')"
            and cl' = "fst (snd ?c1)" and w' = "snd (snd ?c1)"]
       b1 c1
  have r1: "JSONClient_Do test_env (test_codec\<lparr>Unmarshal := Unmarshal test_codec\<rparr>) test_client []
       ''GET'' ''http://h/path'' BodyNil (Some False) [] ?w1
     = (Some (HTTPError 503 ''503 Service Unavailable''), Some False, fst (snd ?c1), snd (snd ?c1))"
    by blast
  from wrappers_leave_result_on_failure
         [where codec = test_codec and b = BodyNil and data = "[]" and env = test_env
            and cl = test_client and ctx = "[]" and meth = "''GET''" and url = "''http://h/path''"
            and opts = "[]" and w = ?w2 and str = "[]" and result = "Some False"
            and err = None and cl' = "fst (snd ?c2)" and w' = "snd (snd ?c2)"]
       b2 c2
  have r2: "XMLClient_Do test_env (test_codec\<lparr>Unmarshal := Unmarshal test_codec\<rparr>) test_client []
       ''GET'' ''http://h/path'' BodyNil (Some False) [] ?w2
     = (None, Some False, fst (snd ?c2), snd (snd ?c2))"
    by blast
  from r1 r2 f1 f2 show ?thesis
    by (simp only: t fst_conv snd_conv simp_thms)
qed

section \<open>The default options are not written\<close>

lemma go_append_clipped:
  "cap s = len s \<Longrightarrow> go_append h s xs =
     (if xs = [] then (s, h)
      else (\<lparr>base = length h, off = 0, len = len s + length xs, cap = len s + length xs\<rparr>,
            h @ [slice_elems h s @ xs]))"
  by (auto simp: go_append_def array_at_def list_update_beyond not_less)

lemma prepare_heap:
  assumes c: "cap (reqOpts cl) = len (reqOpts cl)"
      and r: "prepare env cl ctx meth url body opts w = r"
  shows "\<exists>ys. heap (case r of Inl (e, w1) \<Rightarrow> w1 | Inr (c, req, w1) \<Rightarrow> w1) = heap w @ ys"
proof (cases "NewRequest env meth url body")
  case (Inl e)
  with r have "r = Inl (e, w)" by (simp add: prepare_def)
  then show ?thesis by simp
next
  case (Inr req0)
  obtain s h where a: "go_append (heap w) (reqOpts cl) opts = (s, h)"
    by (cases "go_append (heap w) (reqOpts cl) opts")
  with go_append_clipped [OF c, of "heap w" opts] obtain ys where h: "h = heap w @ ys"
    by (cases "opts = []") auto
  obtain err c1 r1 w1 where l: "option_loop (slice_elems h s) 0 ctx req0 (w\<lparr>heap := h\<rparr>) = (err, c1, r1, w1)"
    by (metis prod_cases4)
  from option_loop_world [OF l] have w1: "heap w1 = h" by auto
  from r Inr a l have "r = (case err of Some e \<Rightarrow> Inl (e, w1) | None \<Rightarrow> Inr (c1, r1, w1))"
    by (simp add: prepare_def split: option.splits)
  with w1 h show ?thesis by (cases err) auto
qed

lemma handle_response_heap:
  "heap (snd (handle_response env cl fs resp w)) = heap w"
  by (simp add: handle_response_def read_response_def log_error_def log_debug_def emit_def
        Let_def split: sum.splits)

lemma do_send_frame:
  "heap (snd (snd (do_send env cl meth body req w))) = heap w
   \<and> reqOpts (fst (snd (do_send env cl meth body req w))) = reqOpts cl"
proof -
  obtain r w' where d: "dispatch req w = (r, w')" by force
  then have t: "heap w' = heap w"
    by (auto simp: dispatch_def emit_def)
  have cl: "reqOpts (default_timeout cl) = reqOpts cl"
    by (simp add: default_timeout_def)
  show ?thesis
  proof (cases r)
    case (Inl e)
    with d t cl show ?thesis
      by (simp add: do_send_def Let_def log_error_def emit_def)
  next
    case (Inr resp)
    with d have "do_send env cl meth body req w
        = (fst (handle_response env (default_timeout cl) (do_logger (default_timeout cl) meth req body) resp w'),
           default_timeout cl,
           snd (handle_response env (default_timeout cl) (do_logger (default_timeout cl) meth req body) resp w'))"
      by (simp add: do_send_def Let_def split: prod.splits)
    with t cl show ?thesis by (simp add: handle_response_heap)
  qed
qed

lemma download_send_frame:
  "heap (snd (snd (download_send env cl meth outFile req w))) = heap w
   \<and> reqOpts (fst (snd (download_send env cl meth outFile req w))) = reqOpts cl"
  by (simp add: download_send_def dispatch_def default_timeout_def log_error_def log_debug_def
        emit_def Let_def split: sum.splits option.splits)

lemma Client_do_frame:
  assumes c: "cap (reqOpts cl) = len (reqOpts cl)"
  shows "reqOpts (fst (snd (Client_do env cl ctx meth url body opts w))) = reqOpts cl
       \<and> (\<exists>ys. heap (snd (snd (Client_do env cl ctx meth url body opts w))) = heap w @ ys)"
proof -
  obtain r where r: "prepare env cl ctx meth url body opts (emit EvAttempt w) = r" by simp
  from prepare_heap [OF c r]
  obtain ys where h: "heap (case r of Inl (e, w1) \<Rightarrow> w1 | Inr (c, req, w1) \<Rightarrow> w1) = heap w @ ys"
    by (auto simp: emit_def)
  show ?thesis
  proof (cases r)
    case (Inl a)
    with r h show ?thesis by (cases a) (auto simp: Client_do_def)
  next
    case (Inr b)
    obtain c1 req w1 where b: "b = (c1, req, w1)" by (cases b)
    with r h Inr show ?thesis
      using do_send_frame [of env cl meth body req w1] by (simp add: Client_do_def)
  qed
qed

lemma DownloadFile_frame:
  assumes c: "cap (reqOpts cl) = len (reqOpts cl)"
  shows "reqOpts (fst (snd (DownloadFile env cl ctx url outFile opts w))) = reqOpts cl
       \<and> (\<exists>ys. heap (snd (snd (DownloadFile env cl ctx url outFile opts w))) = heap w @ ys)"
proof -
  obtain r where r: "prepare env cl ctx ''GET'' url [] opts w = r" by simp
  from prepare_heap [OF c r]
  obtain ys where h: "heap (case r of Inl (e, w1) \<Rightarrow> w1 | Inr (c, req, w1) \<Rightarrow> w1) = heap w @ ys"
    by auto
  show ?thesis
  proof (cases r)
    case (Inl a)
    with r h show ?thesis by (cases a) (auto simp: DownloadFile_def)
  next
    case (Inr b)
    obtain c1 req w1 where b: "b = (c1, req, w1)" by (cases b)
    with r h Inr show ?thesis
      using download_send_frame [of env cl "''GET''" outFile req w1] by (simp add: DownloadFile_def)
  qed
qed


lemma Run_invariant:
  assumes work: "\<And>s. I s \<Longrightarrow> I (snd (work s))"
      and sleep: "\<And>b s. I s \<Longrightarrow> I (sleep b s)"
  shows "I s \<Longrightarrow> I (snd (Run classify bs sleep work s))"
proof (induction bs arbitrary: s)
  case Nil
  with work [of s] show ?case
    by (cases "work s"; cases "classify (fst (work s))") auto
next
  case (Cons b bs)
  obtain ret s' where w: "work s = (ret, s')" by (cases "work s")
  with work [OF Cons.prems] have s': "I s'" by simp
  show ?case
  proof (cases "classify ret")
    case Retry
    with w Cons.IH [OF sleep [OF s', of b]] show ?thesis by simp
  qed (use w s' in auto)
qed

lemma Client_Do_frame:
  assumes c: "cap (reqOpts cl) = len (reqOpts cl)"
  shows "reqOpts (fst (snd (Client_Do env cl ctx meth url body opts w))) = reqOpts cl
       \<and> (\<exists>ys. heap (snd (snd (Client_Do env cl ctx meth url body opts w))) = heap w @ ys)"
proof (cases "retrier cl")
  case None
  with Client_do_frame [OF c] show ?thesis by (simp add: Client_Do_def)
next
  case (Some r)
  let ?I = "\<lambda>s :: string \<times> Client \<times> World.
              reqOpts (fst (snd s)) = reqOpts cl \<and> (\<exists>ys. heap (snd (snd s)) = heap w @ ys)"
  have work: "?I (snd (do_closure env ctx meth url body opts s))" if "?I s" for s
  proof -
    obtain res cl1 w1 where s: "s = (res, cl1, w1)" by (cases s)
    with that have c1: "cap (reqOpts cl1) = len (reqOpts cl1)" and r1: "reqOpts cl1 = reqOpts cl"
      using c by simp_all
    from that s obtain ys where h1: "heap w1 = heap w @ ys" by auto
    obtain res2 err cl2 w2 where d: "Client_do env cl1 ctx meth url body opts w1 = ((res2, err), cl2, w2)"
      by (metis prod.collapse)
    from Client_do_frame [OF c1, of env ctx meth url body opts w1] d
    obtain zs where "reqOpts cl2 = reqOpts cl1" "heap w2 = heap w1 @ zs" by auto
    with r1 h1 show ?thesis by (simp add: s do_closure_def d)
  qed
  have sleep: "?I (backoff_sleep b s)" if "?I s" for b s
    using that by (cases s) (auto simp: backoff_sleep_def emit_def)
  have "?I (snd (Run (class r) (backoff r) backoff_sleep (do_closure env ctx meth url body opts) ([], cl, w)))"
    by (rule Run_invariant [where I = ?I, OF work sleep]) simp_all
  with Some show ?thesis
    by (auto simp: Client_Do_def split: prod.splits)
qed

lemma run_calls_frame:
  assumes c: "cap s0 = len s0"
  shows "reqOpts (fst cw) = s0 \<Longrightarrow> \<exists>ys. heap (snd cw) = h0 @ ys \<Longrightarrow>
           reqOpts (fst (run_calls env calls cw)) = s0
           \<and> (\<exists>ys. heap (snd (run_calls env calls cw)) = h0 @ ys)"
proof (induction calls arbitrary: cw)
  case Nil
  then show ?case by simp
next
  case (Cons a calls)
  obtain cl w where cw: "cw = (cl, w)" by (cases cw)
  with Cons.prems c have c1: "cap (reqOpts cl) = len (reqOpts cl)" and r1: "reqOpts cl = s0"
    by simp_all
  from Cons.prems cw obtain ys where h1: "heap w = h0 @ ys" by auto
  show ?case
  proof (cases a)
    case (CallDo ctx meth url body opts)
    from Client_Do_frame [OF c1, of env ctx meth url body opts w]
    obtain zs where "reqOpts (fst (snd (Client_Do env cl ctx meth url body opts w))) = reqOpts cl"
      "heap (snd (snd (Client_Do env cl ctx meth url body opts w))) = heap w @ zs" by auto
    with r1 h1 Cons.IH [of "snd (Client_Do env cl ctx meth url body opts w)"]
    show ?thesis by (simp add: cw CallDo)
  next
    case (CallDownloadFile ctx url outFile opts)
    from DownloadFile_frame [OF c1, of env ctx url outFile opts w]
    obtain zs where "reqOpts (fst (snd (DownloadFile env cl ctx url outFile opts w))) = reqOpts cl"
      "heap (snd (snd (DownloadFile env cl ctx url outFile opts w))) = heap w @ zs" by auto
    with r1 h1 Cons.IH [of "snd (DownloadFile env cl ctx url outFile opts w)"]
    show ?thesis by (simp add: cw CallDownloadFile)
  qed
qed

lemma slice_elems_extend:
  "slice_ok h s \<Longrightarrow> slice_elems (h @ ys) (slice_full s (len s) (len s)) = slice_elems h s"
  by (auto simp: slice_ok_def slice_elems_def slice_full_def array_at_def nth_append)

text \<open>
  C9, as amended.  \<open>SetDefaultReqOpts\<close> stores the slice with its capacity clipped to its
  length.  The append of the per-call options in \<open>do\<close> and \<open>DownloadFile\<close> therefore
  never writes into the backing array of the stored slice: with at least one per-call
  option it allocates a new array, with none it returns the stored slice as it is and
  allocates nothing.  After any sequence of calls of \<open>Do\<close> and \<open>DownloadFile\<close>, with any
  per-call options, the stored slice is the same, every array that existed before is
  unchanged, and the default option list is element for element what it was.
\<close>

theorem default_options_frame:
  assumes ok: "slice_ok (heap w) s"
  shows "cap (reqOpts (SetDefaultReqOpts cl s)) = len (reqOpts (SetDefaultReqOpts cl s))
       \<and> slice_elems (heap w) (reqOpts (SetDefaultReqOpts cl s)) = slice_elems (heap w) s
       \<and> go_append h (reqOpts (SetDefaultReqOpts cl s)) opts
          = (if opts = [] then (reqOpts (SetDefaultReqOpts cl s), h)
             else (\<lparr>base = length h, off = 0, len = len s + length opts, cap = len s + length opts\<rparr>,
                   h @ [slice_elems h (reqOpts (SetDefaultReqOpts cl s)) @ opts]))
       \<and> reqOpts (fst (run_calls env calls (SetDefaultReqOpts cl s, w)))
          = reqOpts (SetDefaultReqOpts cl s)
       \<and> take (length (heap w)) (heap (snd (run_calls env calls (SetDefaultReqOpts cl s, w))))
          = heap w
       \<and> slice_elems (heap (snd (run_calls env calls (SetDefaultReqOpts cl s, w))))
            (reqOpts (fst (run_calls env calls (SetDefaultReqOpts cl s, w))))
          = slice_elems (heap w) s"
proof -
  let ?cl = "SetDefaultReqOpts cl s"
  have r: "reqOpts ?cl = slice_full s (len s) (len s)"
    by (simp add: SetDefaultReqOpts_def)
  have c: "cap (reqOpts ?cl) = len (reqOpts ?cl)"
    by (simp add: r slice_full_def)
  have l: "len (reqOpts ?cl) = len s"
    by (simp add: r slice_full_def)
  have e: "slice_elems (heap w) (reqOpts ?cl) = slice_elems (heap w) s"
    using slice_elems_extend [OF ok, of "[]"] by (simp add: r)
  have a: "go_append h (reqOpts ?cl) opts
          = (if opts = [] then (reqOpts ?cl, h)
             else (\<lparr>base = length h, off = 0, len = len s + length opts, cap = len s + length opts\<rparr>,
                   h @ [slice_elems h (reqOpts ?cl) @ opts]))"
    using go_append_clipped [OF c, of h opts] by (simp add: l)
  from run_calls_frame [OF c, of "(?cl, w)" "heap w" env calls]
  obtain ys where f: "reqOpts (fst (run_calls env calls (?cl, w))) = reqOpts ?cl"
    "heap (snd (run_calls env calls (?cl, w))) = heap w @ ys"
    by auto
  have g: "slice_elems (heap w @ ys) (reqOpts ?cl) = slice_elems (heap w) s"
    using slice_elems_extend [OF ok, of ys] by (simp add: r)
  show ?thesis
    by (intro conjI c e a) (simp_all add: f g)
qed

theorem default_options_frame_witness:
  "slice_ok (heap (test_defaults_world (Inr (test_response 200 ''200 OK'' [] ''ok''))))
       \<lparr>base = 0, off = 0, len = 1, cap = 2\<rparr>
   \<and> reqOpts (fst (run_calls test_env
         [CallDo [] ''GET'' ''http://h/path'' [] [SetHeader (\<lambda>k. k) ''B'' ''2''],
          CallDownloadFile [] ''http://h/path'' ''out'' [failing_option],
          CallDo [] ''GET'' ''http://h/path'' [] []]
         (test_defaults_client, test_defaults_world (Inr (test_response 200 ''200 OK'' [] ''ok'')))))
     = \<lparr>base = 0, off = 0, len = 1, cap = 1\<rparr>
   \<and> take 1 (heap (snd (run_calls test_env
         [CallDo [] ''GET'' ''http://h/path'' [] [SetHeader (\<lambda>k. k) ''B'' ''2''],
          CallDownloadFile [] ''http://h/path'' ''out'' [failing_option],
          CallDo [] ''GET'' ''http://h/path'' [] []]
         (test_defaults_client, test_defaults_world (Inr (test_response 200 ''200 OK'' [] ''ok''))))))
     = [[SetHeader (\<lambda>k. k) ''A'' ''1'', SetHeader (\<lambda>k. k) ''Z'' ''9'']]
   \<and> slice_elems (heap (snd (run_calls test_env
         [CallDo [] ''GET'' ''http://h/path'' [] [SetHeader (\<lambda>k. k) ''B'' ''2''],
          CallDownloadFile [] ''http://h/path'' ''out'' [failing_option],
          CallDo [] ''GET'' ''http://h/path'' [] []]
         (test_defaults_client, test_defaults_world (Inr (test_response 200 ''200 OK'' [] ''ok''))))))
        (reqOpts (fst (run_calls test_env
         [CallDo [] ''GET'' ''http://h/path'' [] [SetHeader (\<lambda>k. k) ''B'' ''2''],
          CallDownloadFile [] ''http://h/path'' ''out'' [failing_option],
          CallDo [] ''GET'' ''http://h/path'' [] []]
         (test_defaults_client, test_defaults_world (Inr (test_response 200 ''200 OK'' [] ''ok''))))))
     = [SetHeader (\<lambda>k. k) ''A'' ''1'']"
proof -
  let ?w = "test_defaults_world (Inr (test_response 200 ''200 OK'' [] ''ok''))"
  let ?s = "\<lparr>base = 0, off = 0, len = 1, cap = 2\<rparr>"
  have ok: "slice_ok (heap ?w) ?s"
    by (simp add: slice_ok_def test_defaults_world_def test_world_def)
  have h: "heap ?w = [[SetHeader (\<lambda>k. k) ''A'' ''1'', SetHeader (\<lambda>k. k) ''Z'' ''9'']]"
    by (simp add: test_defaults_world_def test_world_def)
  have e: "slice_elems (heap ?w) ?s = [SetHeader (\<lambda>k. k) ''A'' ''1'']"
    by (simp add: h slice_elems_def array_at_def)
  have c: "reqOpts (SetDefaultReqOpts test_client ?s) = \<lparr>base = 0, off = 0, len = 1, cap = 1\<rparr>"
    by (simp add: SetDefaultReqOpts_def slice_full_def)
  let ?calls = "[CallDo [] ''GET'' ''http://h/path'' [] [SetHeader (\<lambda>k. k) ''B'' ''2''],
          CallDownloadFile [] ''http://h/path'' ''out'' [failing_option],
          CallDo [] ''GET'' ''http://h/path'' [] []]"
  note f = default_options_frame [OF ok, where cl = test_client and env = test_env and calls = ?calls]
  have r4: "reqOpts (fst (run_calls test_env ?calls (SetDefaultReqOpts test_client ?s, ?w)))
      = \<lparr>base = 0, off = 0, len = 1, cap = 1\<rparr>"
    using f [THEN conjunct2, THEN conjunct2, THEN conjunct2, THEN conjunct1] c by simp
  have r5: "take 1 (heap (snd (run_calls test_env ?calls (SetDefaultReqOpts test_client ?s, ?w))))
      = [[SetHeader (\<lambda>k. k) ''A'' ''1'', SetHeader (\<lambda>k. k) ''Z'' ''9'']]"
    using f [THEN conjunct2, THEN conjunct2, THEN conjunct2, THEN conjunct2, THEN conjunct1] h
    by simp
  have r6: "slice_elems (heap (snd (run_calls test_env ?calls (SetDefaultReqOpts test_client ?s, ?w))))
        (reqOpts (fst (run_calls test_env ?calls (SetDefaultReqOpts test_client ?s, ?w))))
      = [SetHeader (\<lambda>k. k) ''A'' ''1'']"
    using f [THEN conjunct2, THEN conjunct2, THEN conjunct2, THEN conjunct2, THEN conjunct2] e
    by simp
  show ?thesis
    unfolding test_defaults_client_def by (intro conjI ok r4 r5 r6)
qed

text \<open>
  The claim as stated fails on a call without per-call options: \<open>append\<close> of nothing
  returns the stored slice and allocates no array, in \<open>do\<close> and in \<open>DownloadFile\<close>.
\<close>

theorem append_without_options_allocates_nothing:
  "go_append (heap (test_defaults_world (Inr (test_response 200 ''200 OK'' [] ''ok''))))
       (reqOpts test_defaults_client) []
     = (reqOpts test_defaults_client,
        heap (test_defaults_world (Inr (test_response 200 ''200 OK'' [] ''ok''))))
   \<and> heap (snd (snd (Client_do test_env test_defaults_client [] ''GET'' ''http://h/path'' [] []
             (test_defaults_world (Inr (test_response 200 ''200 OK'' [] ''ok''))))))
     = heap (test_defaults_world (Inr (test_response 200 ''200 OK'' [] ''ok'')))
   \<and> heap (snd (snd (DownloadFile test_env test_defaults_client [] ''http://h/path'' ''out'' []
             (test_defaults_world (Inr (test_response 200 ''200 OK'' [] ''ok''))))))
     = heap (test_defaults_world (Inr (test_response 200 ''200 OK'' [] ''ok'')))"
  by (simp add: run_defs2 DownloadFile_def download_send_def download_logger_def
        SetHeader_def Header_Set_def)

end
